theory Spec2Isabelle
  imports Complex_Main "HOL-Library.Sublist"
begin

section \<open>Python strings and exceptions\<close>

text \<open>
  A Python \<open>str\<close> is modelled as a \<open>string\<close> whose characters are the code points
  below 256. \<open>str.lower\<close> on that range maps \<open>A..Z\<close> and the accented capitals
  \<open>U+00C0..U+00DE\<close> (without the multiplication sign \<open>U+00D7\<close>) 32 places up and
  leaves every other code point alone; \<open>str.strip\<close> removes the white space
  \<open>U+0009..U+000D\<close>, \<open>U+001C..U+0020\<close>, \<open>U+0085\<close> and \<open>U+00A0\<close> at both ends.
\<close>

definition lower_char :: "char \<Rightarrow> char" where
  "lower_char c =
     (let n = (of_char c :: nat) in
      if (65 \<le> n \<and> n \<le> 90) \<or> (192 \<le> n \<and> n \<le> 222 \<and> n \<noteq> 215)
      then char_of (n + 32) else c)"

definition lower :: "string \<Rightarrow> string" where
  "lower s = map lower_char s"

definition is_space :: "char \<Rightarrow> bool" where
  "is_space c =
     (let n = (of_char c :: nat) in
      (9 \<le> n \<and> n \<le> 13) \<or> (28 \<le> n \<and> n \<le> 32) \<or> n = 133 \<or> n = 160)"

definition strip :: "string \<Rightarrow> string" where
  "strip s = rev (dropWhile is_space (rev (dropWhile is_space s)))"

text \<open>Truthiness of an optional string: \<open>None\<close> and the empty string are false.\<close>

fun truthy :: "string option \<Rightarrow> bool" where
  "truthy None = False"
| "truthy (Some s) = (s \<noteq> [])"

text \<open>
  The exceptions the modelled code raises itself (\<open>ValueError\<close> with its message,
  \<open>IndexError\<close> of \<open>choices[0]\<close> on an empty list) and those raised by an external
  collaborator (the vector store, an LLM client, the evaluation step), which carry only
  a description. All of them are subclasses of Python's \<open>Exception\<close>.
\<close>

datatype exn = ValueError string | IndexError | ExternalError string

section \<open>Retrieval: \<open>search_service.py\<close>\<close>

text \<open>
  A point id of the vector store is an unsigned integer or a UUID string. The payload
  of a point is the dictionary the ingestion wrote; a field is \<open>None\<close> when its key is
  absent. The relevance score is carried along and never computed with.
\<close>

datatype point_id = IntId int | StrId string

record payload =
  p_title :: "string option"
  p_feed_author :: "string option"
  p_feed_name :: "string option"
  p_article_authors :: "string list option"
  p_url :: "string option"
  p_chunk_text :: "string option"

record point =
  pt_id :: point_id
  pt_payload :: "payload option"
  pt_score :: real

record SearchResult =
  title :: string
  feed_author :: "string option"
  feed_name :: "string option"
  article_author :: "string list option"
  url :: "string option"
  chunk_text :: "string option"
  score :: real

text \<open>\<open>payload = point.payload or {}\<close>: no payload reads as the empty dictionary.\<close>

definition empty_payload :: payload where
  "empty_payload = \<lparr>p_title = None, p_feed_author = None, p_feed_name = None,
     p_article_authors = None, p_url = None, p_chunk_text = None\<rparr>"

definition payload_or_empty :: "point \<Rightarrow> payload" where
  "payload_or_empty p = (case pt_payload p of None \<Rightarrow> empty_payload | Some pl \<Rightarrow> pl)"

text \<open>The request handed to the vector store: the query text both embeddings are
  computed from, the filter, and the number of points to fetch per modality and overall.\<close>

datatype field_condition = MatchValue string string | MatchText string string

record query_request =
  q_text :: string
  q_filter :: "field_condition list option"
  q_fetch_limit :: int

type_synonym vectorstore = "query_request \<Rightarrow> exn + point list"

definition build_conditions ::
  "string option \<Rightarrow> string option \<Rightarrow> string option \<Rightarrow> field_condition list" where
  "build_conditions fa fn tk =
     (if truthy fa then [MatchValue ''feed_author'' (the fa)] else []) @
     (if truthy fn then [MatchValue ''feed_name'' (the fn)] else []) @
     (if truthy tk then [MatchText ''title'' (lower (strip (the tk)))] else [])"

definition build_filter ::
  "string option \<Rightarrow> string option \<Rightarrow> string option \<Rightarrow> field_condition list option" where
  "build_filter fa fn tk =
     (let conditions = build_conditions fa fn tk
      in if conditions \<noteq> [] then Some conditions else None)"

definition search_request ::
  "string \<Rightarrow> string option \<Rightarrow> string option \<Rightarrow> string option \<Rightarrow> int \<Rightarrow> query_request" where
  "search_request query_text fa fn tk fetch_limit =
     \<lparr>q_text = query_text, q_filter = build_filter fa fn tk, q_fetch_limit = fetch_limit\<rparr>"

text \<open>Python's \<open>results[:limit]\<close>: a negative bound counts from the end.\<close>

definition slice_to :: "'a list \<Rightarrow> int \<Rightarrow> 'a list" where
  "slice_to xs limit =
     (if 0 \<le> limit then take (nat limit) xs
      else take (length xs - nat (- limit)) xs)"

subsection \<open>\<open>query_with_filters\<close>: deduplication by point id\<close>

definition result_of_id :: "point \<Rightarrow> SearchResult" where
  "result_of_id p =
     (let pl = payload_or_empty p in
      \<lparr>title = (case p_title pl of None \<Rightarrow> [] | Some t \<Rightarrow> t),
       feed_author = p_feed_author pl,
       feed_name = p_feed_name pl,
       article_author = p_article_authors pl,
       url = p_url pl,
       chunk_text = p_chunk_text pl,
       score = pt_score p\<rparr>)"

text \<open>The loop over \<open>response.points\<close>, with its two variables \<open>seen_ids\<close> and
  \<open>results\<close>.\<close>

fun dedup_ids :: "point list \<Rightarrow> point_id set \<Rightarrow> SearchResult list \<Rightarrow> SearchResult list" where
  "dedup_ids [] seen_ids results = results"
| "dedup_ids (p # ps) seen_ids results =
     (if pt_id p \<in> seen_ids then dedup_ids ps seen_ids results
      else dedup_ids ps (insert (pt_id p) seen_ids) (results @ [result_of_id p]))"

definition query_with_filters ::
  "vectorstore \<Rightarrow> string \<Rightarrow> string option \<Rightarrow> string option \<Rightarrow> string option \<Rightarrow> int
     \<Rightarrow> exn + SearchResult list" where
  "query_with_filters vs query_text fa fn tk limit =
     (let fetch_limit = max 1 limit * 100 in
      case vs (search_request query_text fa fn tk fetch_limit) of
        Inl e \<Rightarrow> Inl e
      | Inr points \<Rightarrow> Inr (slice_to (dedup_ids points {} []) limit))"

subsection \<open>\<open>query_unique_titles\<close>: deduplication by title\<close>

definition result_of_title :: "string \<Rightarrow> point \<Rightarrow> SearchResult" where
  "result_of_title t p =
     (let pl = payload_or_empty p in
      \<lparr>title = t,
       feed_author = p_feed_author pl,
       feed_name = p_feed_name pl,
       article_author = p_article_authors pl,
       url = p_url pl,
       chunk_text = p_chunk_text pl,
       score = pt_score p\<rparr>)"

text \<open>The loop with its \<open>continue\<close> (no title, or a title seen before) and its
  \<open>break\<close>, which is tested after the append.\<close>

fun dedup_titles ::
  "point list \<Rightarrow> string set \<Rightarrow> SearchResult list \<Rightarrow> int \<Rightarrow> SearchResult list" where
  "dedup_titles [] seen_titles results limit = results"
| "dedup_titles (p # ps) seen_titles results limit =
     (let t = p_title (payload_or_empty p) in
      if \<not> truthy t \<or> the t \<in> seen_titles then dedup_titles ps seen_titles results limit
      else
        (let results' = results @ [result_of_title (the t) p] in
         if limit \<le> int (length results') then results'
         else dedup_titles ps (insert (the t) seen_titles) results' limit))"

definition query_unique_titles ::
  "vectorstore \<Rightarrow> string \<Rightarrow> string option \<Rightarrow> string option \<Rightarrow> string option \<Rightarrow> int
     \<Rightarrow> exn + SearchResult list" where
  "query_unique_titles vs query_text fa fn tk limit =
     (let fetch_limit = max 1 limit * 280 in
      case vs (search_request query_text fa fn tk fetch_limit) of
        Inl e \<Rightarrow> Inl e
      | Inr points \<Rightarrow> Inr (dedup_titles points {} [] limit))"

section \<open>Model registry: \<open>provider_models.py\<close>\<close>

datatype ProviderSort = latency

record ModelConfig =
  primary_model :: string
  candidate_models :: "string list"
  provider_sort :: ProviderSort
  stream :: bool
  max_completion_tokens :: int
  temperature :: real

text \<open>The field defaults of \<open>ModelConfig()\<close>.\<close>

definition default_config :: ModelConfig where
  "default_config = \<lparr>primary_model = [], candidate_models = [], provider_sort = latency,
     stream = False, max_completion_tokens = 5000, temperature = 0\<rparr>"

text \<open>The \<open>models\<close> dictionary of a \<open>ModelRegistry\<close>.\<close>

type_synonym ModelRegistry = "string \<rightharpoonup> ModelConfig"

definition get_config :: "ModelRegistry \<Rightarrow> string \<Rightarrow> exn + ModelConfig" where
  "get_config models provider =
     (let provider_lower = lower provider in
      case models provider_lower of
        None \<Rightarrow> Inl (ValueError (''ModelConfig not found for provider: '' @ provider))
      | Some config \<Rightarrow> Inr config)"

definition MODEL_REGISTRY :: ModelRegistry where
  "MODEL_REGISTRY = map_of
     [(''openrouter'', default_config
         \<lparr>primary_model := ''openai/gpt-oss-20b:free'',
          candidate_models :=
            [''cognitivecomputations/dolphin-mistral-24b-venice-edition:free'',
             ''nvidia/nemotron-nano-9b-v2:free'']\<rparr>),
      (''huggingface'', default_config \<lparr>primary_model := ''deepseek-ai/DeepSeek-R1''\<rparr>)]"

section \<open>LLM clients\<close>

text \<open>
  The three SDK clients are external. A client is modelled by what its
  \<open>chat.completions.create\<close> answers to a request: without \<open>stream=True\<close> a completion
  or an exception; with it, an exception or a stream, which is the list of chunks it
  delivers and then either its normal end or the exception raised while iterating.
  \<open>getattr(x, name, None)\<close> reads an optional field. The keyword of the token bound is
  \<open>max_completion_tokens\<close> for the OpenAI SDK and \<open>max_tokens\<close> for Hugging Face; both
  are the field \<open>req_max_tokens\<close>.
\<close>

datatype message = UserMessage string

record extra_body =
  eb_provider_sort :: string
  eb_models :: "string list option"

record chat_request =
  req_model :: string
  req_messages :: "message list"
  req_temperature :: real
  req_max_tokens :: int
  req_extra_body :: "extra_body option"
  req_stream :: bool

record completion_choice =
  message_content :: "string option"
  native_finish_reason :: "string option"
  choice_model :: "string option"

record completion =
  choices :: "completion_choice list"
  completion_model :: "string option"

record chunk_choice =
  delta_content :: "string option"
  finish_reason :: "string option"

record chunk =
  chunk_model :: "string option"
  chunk_choices :: "chunk_choice list"

type_synonym chunk_stream = "chunk list \<times> exn option"

record client =
  create :: "chat_request \<Rightarrow> exn + completion"
  create_stream :: "chat_request \<Rightarrow> exn + chunk_stream"

text \<open>
  The collaborators of the generation service: the three clients, the evaluation step
  \<open>evaluate_metrics(answer, prompt)\<close> and the prompt template
  \<open>build_research_prompt(contexts, query)\<close>, whose text no property below depends on.
\<close>

record env =
  openai_client :: client
  openrouter_client :: client
  hf_client :: client
  evaluate_metrics :: "string \<Rightarrow> string \<Rightarrow> exn + string"
  build_research_prompt :: "SearchResult list \<Rightarrow> string \<Rightarrow> string"

text \<open>Every call that leaves the process is recorded, in order.\<close>

datatype backend = OpenAI | OpenRouter | HuggingFace

datatype call = ChatCall backend chat_request | EvalCall string string

definition build_messages :: "string \<Rightarrow> message list" where
  "build_messages prompt = [UserMessage prompt]"

definition sort_value :: "ProviderSort \<Rightarrow> string" where
  "sort_value s = (case s of latency \<Rightarrow> ''latency'')"

definition build_openrouter_extra :: "ModelConfig \<Rightarrow> extra_body" where
  "build_openrouter_extra config =
     \<lparr>eb_provider_sort = sort_value (provider_sort config),
      eb_models = (if candidate_models config \<noteq> [] then Some (candidate_models config)
                   else None)\<rparr>"

text \<open>\<open>a or b\<close> on optional strings, and \<open>s or ""\<close>.\<close>

definition or_else :: "string option \<Rightarrow> string option \<Rightarrow> string option" where
  "or_else a b = (if truthy a then a else b)"

definition or_empty :: "string option \<Rightarrow> string" where
  "or_empty a = (if truthy a then the a else [])"

section \<open>Batch adapters\<close>

definition generate_openai ::
  "env \<Rightarrow> string \<Rightarrow> ModelConfig \<Rightarrow> call list \<times> (exn + string \<times> string option)" where
  "generate_openai ev prompt config =
     (let req = \<lparr>req_model = ''gpt-4o-mini'', req_messages = build_messages prompt,
                 req_temperature = temperature config,
                 req_max_tokens = max_completion_tokens config,
                 req_extra_body = None, req_stream = False\<rparr>
      in ([ChatCall OpenAI req],
          case create (openai_client ev) req of
            Inl e \<Rightarrow> Inl e
          | Inr resp \<Rightarrow>
              (case choices resp of
                 [] \<Rightarrow> Inl IndexError
               | c # _ \<Rightarrow> Inr (or_empty (message_content c), None))))"

definition generate_huggingface ::
  "env \<Rightarrow> string \<Rightarrow> ModelConfig \<Rightarrow> call list \<times> (exn + string \<times> string option)" where
  "generate_huggingface ev prompt config =
     (let req = \<lparr>req_model = primary_model config, req_messages = build_messages prompt,
                 req_temperature = temperature config,
                 req_max_tokens = max_completion_tokens config,
                 req_extra_body = None, req_stream = False\<rparr>
      in ([ChatCall HuggingFace req],
          case create (hf_client ev) req of
            Inl e \<Rightarrow> Inl e
          | Inr resp \<Rightarrow>
              (case choices resp of
                 [] \<Rightarrow> Inl IndexError
               | c # _ \<Rightarrow> Inr (or_empty (message_content c), None))))"

text \<open>\<open>model_to_use = selected_model or config.primary_model\<close>\<close>

definition model_to_use :: "string option \<Rightarrow> ModelConfig \<Rightarrow> string" where
  "model_to_use selected_model config =
     (if truthy selected_model then the selected_model else primary_model config)"

definition generate_openrouter ::
  "env \<Rightarrow> string \<Rightarrow> ModelConfig \<Rightarrow> string option
     \<Rightarrow> call list \<times> (exn + string \<times> string option \<times> string option)" where
  "generate_openrouter ev prompt config selected_model =
     (let req = \<lparr>req_model = model_to_use selected_model config,
                 req_messages = build_messages prompt,
                 req_temperature = temperature config,
                 req_max_tokens = max_completion_tokens config,
                 req_extra_body = Some (build_openrouter_extra config),
                 req_stream = False\<rparr>
      in ([ChatCall OpenRouter req],
          case create (openrouter_client ev) req of
            Inl e \<Rightarrow> Inl e
          | Inr resp \<Rightarrow>
              (case choices resp of
                 [] \<Rightarrow> Inl IndexError
               | c # _ \<Rightarrow>
                   (let answer = or_empty (message_content c);
                        fin_reason = native_finish_reason c;
                        model_used = or_else (choice_model c) (completion_model resp)
                    in Inr (answer, model_used, fin_reason)))))"

section \<open>Streaming adapters\<close>

text \<open>
  What running an asynchronous generator to its end gives: the calls it made, the
  strings it yielded in order, and the exception it raised after them, if any.
\<close>

type_synonym gen_out = "call list \<times> string list \<times> exn option"

text \<open>
  The loop \<open>async for chunk in stream\<close> of \<open>stream_openai\<close>, which is also the loop of
  \<open>stream_openrouter\<close> after its first chunk: yield the delta text when it is not
  empty, remember the last finish reason that is not empty. The result is the strings
  yielded, the last finish reason, and \<open>IndexError\<close> when a chunk has no choice.
\<close>

fun chunk_loop ::
  "chunk list \<Rightarrow> string option \<Rightarrow> string list \<times> string option \<times> exn option" where
  "chunk_loop [] last_finish_reason = ([], last_finish_reason, None)"
| "chunk_loop (c # cs) last_finish_reason =
     (case chunk_choices c of
        [] \<Rightarrow> ([], last_finish_reason, Some IndexError)
      | ch # _ \<Rightarrow>
          (let ys = (if truthy (delta_content ch) then [the (delta_content ch)] else []);
               last' = (if truthy (finish_reason ch) then finish_reason ch
                        else last_finish_reason);
               (ys', l, e) = chunk_loop cs last'
           in (ys @ ys', l, e)))"

text \<open>After the loop: the stream's own exception, or the truncation marker.\<close>

definition finish_stream ::
  "string list \<times> string option \<times> exn option \<Rightarrow> exn option \<Rightarrow> string list \<times> exn option" where
  "finish_stream looped stream_error =
     (case looped of (ys, last_finish_reason, e) \<Rightarrow>
        (case e of
           Some x \<Rightarrow> (ys, Some x)
         | None \<Rightarrow>
             (case stream_error of
                Some x \<Rightarrow> (ys, Some x)
              | None \<Rightarrow>
                  (if last_finish_reason = Some ''length'' then (ys @ [''__truncated__''], None)
                   else (ys, None)))))"

definition stream_openai :: "env \<Rightarrow> string \<Rightarrow> ModelConfig \<Rightarrow> gen_out" where
  "stream_openai ev prompt config =
     (let req = \<lparr>req_model = primary_model config, req_messages = build_messages prompt,
                 req_temperature = temperature config,
                 req_max_tokens = max_completion_tokens config,
                 req_extra_body = None, req_stream = True\<rparr>
      in case create_stream (openai_client ev) req of
           Inl e \<Rightarrow> ([ChatCall OpenAI req], [], Some e)
         | Inr (chunks, stream_error) \<Rightarrow>
             (case finish_stream (chunk_loop chunks None) stream_error of
                (ys, raised) \<Rightarrow> ([ChatCall OpenAI req], ys, raised)))"

text \<open>
  \<open>stream_openrouter\<close> reads the first chunk by hand: an empty stream ends the
  generator (\<open>StopAsyncIteration\<close>), otherwise the model name and the first delta are
  yielded when not empty. The finish reason of the first chunk is not read.
\<close>

definition stream_openrouter :: "env \<Rightarrow> string \<Rightarrow> ModelConfig \<Rightarrow> string option \<Rightarrow> gen_out" where
  "stream_openrouter ev prompt config selected_model =
     (let req = \<lparr>req_model = model_to_use selected_model config,
                 req_messages = build_messages prompt,
                 req_temperature = temperature config,
                 req_max_tokens = max_completion_tokens config,
                 req_extra_body = Some (build_openrouter_extra config),
                 req_stream = True\<rparr>
      in case create_stream (openrouter_client ev) req of
           Inl e \<Rightarrow> ([ChatCall OpenRouter req], [], Some e)
         | Inr (chunks, stream_error) \<Rightarrow>
             (case chunks of
                [] \<Rightarrow> ([ChatCall OpenRouter req], [], stream_error)
              | first_chunk # rest \<Rightarrow>
                  (let ys0 = (if truthy (chunk_model first_chunk)
                              then [''__model_used__:'' @ the (chunk_model first_chunk)]
                              else [])
                   in case chunk_choices first_chunk of
                        [] \<Rightarrow> ([ChatCall OpenRouter req], ys0, Some IndexError)
                      | ch # _ \<Rightarrow>
                          (let ys1 = (if truthy (delta_content ch) then [the (delta_content ch)]
                                      else [])
                           in case finish_stream (chunk_loop rest None) stream_error of
                                (ys, raised) \<Rightarrow>
                                  ([ChatCall OpenRouter req], ys0 @ ys1 @ ys, raised)))))"

text \<open>The loop of \<open>stream_huggingface\<close> reads the delta text only.\<close>

fun hf_loop :: "chunk list \<Rightarrow> string list \<times> exn option" where
  "hf_loop [] = ([], None)"
| "hf_loop (c # cs) =
     (case chunk_choices c of
        [] \<Rightarrow> ([], Some IndexError)
      | ch # _ \<Rightarrow>
          (let ys = (if truthy (delta_content ch) then [the (delta_content ch)] else []);
               (ys', e) = hf_loop cs
           in (ys @ ys', e)))"

definition stream_huggingface :: "env \<Rightarrow> string \<Rightarrow> ModelConfig \<Rightarrow> gen_out" where
  "stream_huggingface ev prompt config =
     (let req = \<lparr>req_model = primary_model config, req_messages = build_messages prompt,
                 req_temperature = temperature config,
                 req_max_tokens = max_completion_tokens config,
                 req_extra_body = None, req_stream = True\<rparr>
      in case create_stream (hf_client ev) req of
           Inl e \<Rightarrow> ([ChatCall HuggingFace req], [], Some e)
         | Inr (chunks, stream_error) \<Rightarrow>
             (case hf_loop chunks of
                (ys, Some x) \<Rightarrow> ([ChatCall HuggingFace req], ys, Some x)
              | (ys, None) \<Rightarrow> ([ChatCall HuggingFace req], ys, stream_error)))"

section \<open>Orchestration: \<open>generation_service.py\<close>\<close>

record answer =
  ans_answer :: string
  ans_sources :: "string option list"
  ans_model :: "string option"
  ans_finish_reason :: "string option"

text \<open>
  \<open>generate_answer\<close>: the registry is read before the provider is dispatched on. Only
  the OpenRouter branch runs the evaluation step; its \<open>except\<close> logs and raises again.
\<close>

definition generate_answer ::
  "env \<Rightarrow> ModelRegistry \<Rightarrow> string \<Rightarrow> SearchResult list \<Rightarrow> string \<Rightarrow> string option
     \<Rightarrow> call list \<times> (exn + answer)" where
  "generate_answer ev registry query contexts provider selected_model =
     (let prompt = build_research_prompt ev contexts query;
          provider_lower = lower provider
      in case get_config registry provider_lower of
           Inl e \<Rightarrow> ([], Inl e)
         | Inr config \<Rightarrow>
             (if provider_lower = ''openai'' then
                (case generate_openai ev prompt config of
                   (calls, Inl e) \<Rightarrow> (calls, Inl e)
                 | (calls, Inr (answer, model_used)) \<Rightarrow>
                     (calls, Inr \<lparr>ans_answer = answer, ans_sources = map url contexts,
                                  ans_model = model_used, ans_finish_reason = None\<rparr>))
              else if provider_lower = ''openrouter'' then
                (case generate_openrouter ev prompt config selected_model of
                   (calls, Inl e) \<Rightarrow> (calls, Inl e)
                 | (calls, Inr (answer, model_used, fin_reason)) \<Rightarrow>
                     (case evaluate_metrics ev answer prompt of
                        Inl e \<Rightarrow> (calls @ [EvalCall answer prompt], Inl e)
                      | Inr metrics_results \<Rightarrow>
                          (calls @ [EvalCall answer prompt],
                           Inr \<lparr>ans_answer = answer, ans_sources = map url contexts,
                                ans_model = model_used,
                                ans_finish_reason = fin_reason\<rparr>)))
              else if provider_lower = ''huggingface'' then
                (case generate_huggingface ev prompt config of
                   (calls, Inl e) \<Rightarrow> (calls, Inl e)
                 | (calls, Inr (answer, model_used)) \<Rightarrow>
                     (calls, Inr \<lparr>ans_answer = answer, ans_sources = map url contexts,
                                  ans_model = model_used, ans_finish_reason = None\<rparr>))
              else ([], Inl (ValueError (''Unknown provider: '' @ provider)))))"

text \<open>
  \<open>stream_gen\<close>, the generator \<open>get_streaming_function\<close> returns. Every chunk of the
  adapter is appended to \<open>buffer\<close> and yielded. Only the OpenRouter branch has a
  \<open>try\<close>: it covers the adapter's stream and the evaluation of the joined buffer, and
  its \<open>except Exception\<close> yields \<open>__error__\<close>.
\<close>

definition stream_gen ::
  "env \<Rightarrow> string \<Rightarrow> string \<Rightarrow> string \<Rightarrow> ModelConfig \<Rightarrow> string option \<Rightarrow> gen_out" where
  "stream_gen ev provider provider_lower prompt config selected_model =
     (if provider_lower = ''openai'' then stream_openai ev prompt config
      else if provider_lower = ''openrouter'' then
        (case stream_openrouter ev prompt config selected_model of
           (calls, buffer, Some e) \<Rightarrow> (calls, buffer @ [''__error__''], None)
         | (calls, buffer, None) \<Rightarrow>
             (let full_output = concat buffer in
              case evaluate_metrics ev full_output prompt of
                Inl e \<Rightarrow> (calls @ [EvalCall full_output prompt], buffer @ [''__error__''], None)
              | Inr metrics_results \<Rightarrow> (calls @ [EvalCall full_output prompt], buffer, None)))
      else if provider_lower = ''huggingface'' then stream_huggingface ev prompt config
      else ([], [], Some (ValueError (''Unknown provider: '' @ provider))))"

text \<open>
  \<open>get_streaming_function\<close> raises when the registry has no configuration, and
  otherwise returns the generator; here, what running that generator gives.
\<close>

definition get_streaming_function ::
  "env \<Rightarrow> ModelRegistry \<Rightarrow> string \<Rightarrow> string \<Rightarrow> SearchResult list \<Rightarrow> string option
     \<Rightarrow> exn + gen_out" where
  "get_streaming_function ev registry provider query contexts selected_model =
     (let prompt = build_research_prompt ev contexts query;
          provider_lower = lower provider
      in case get_config registry provider_lower of
           Inl e \<Rightarrow> Inl e
         | Inr config \<Rightarrow>
             Inr (stream_gen ev provider provider_lower prompt config selected_model))"

section \<open>The consumer's reading of a chunk: \<open>call_ai\<close> in \<open>frontend/app.py\<close>\<close>

text \<open>
  The consumer tells the three markers from answer text by the start of the chunk
  (\<open>chunk.startswith\<close>).
\<close>

definition is_marker :: "string \<Rightarrow> bool" where
  "is_marker chunk \<longleftrightarrow>
     prefix ''__model_used__:'' chunk \<or> prefix ''__error__'' chunk \<or>
     prefix ''__truncated__'' chunk"

text \<open>
  The loop of \<open>call_ai\<close> over the chunks of a streamed response: an empty chunk is
  skipped, a model chunk and a truncation chunk are reported and add no text, an error
  chunk ends the loop (\<open>break\<close>), and every other chunk is added to \<open>answer_text\<close>.
  The chunks added are the text fragments; the answer text is their concatenation.
\<close>

fun text_fragments :: "string list \<Rightarrow> string list" where
  "text_fragments [] = []"
| "text_fragments (chunk # chunks) =
     (if chunk = [] then text_fragments chunks
      else if prefix ''__model_used__:'' chunk then text_fragments chunks
      else if prefix ''__error__'' chunk then []
      else if prefix ''__truncated__'' chunk then text_fragments chunks
      else chunk # text_fragments chunks)"

section \<open>Auxiliary notions for the retrieval properties\<close>

text \<open>A candidate has a title when its payload holds a title that is not empty.\<close>

definition titled :: "point \<Rightarrow> bool" where
  "titled p = truthy (p_title (payload_or_empty p))"

definition title_of :: "point \<Rightarrow> string" where
  "title_of p = the (p_title (payload_or_empty p))"

text \<open>The candidates each loop keeps, as a list of the candidates themselves.\<close>

fun kept_ids :: "point list \<Rightarrow> point_id set \<Rightarrow> point list" where
  "kept_ids [] seen = []"
| "kept_ids (p # ps) seen =
     (if pt_id p \<in> seen then kept_ids ps seen
      else p # kept_ids ps (insert (pt_id p) seen))"

fun kept_titles :: "point list \<Rightarrow> string set \<Rightarrow> nat \<Rightarrow> int \<Rightarrow> point list" where
  "kept_titles [] seen k limit = []"
| "kept_titles (p # ps) seen k limit =
     (if \<not> titled p \<or> title_of p \<in> seen then kept_titles ps seen k limit
      else if limit \<le> int (Suc k) then [p]
      else p # kept_titles ps (insert (title_of p) seen) (Suc k) limit)"

text \<open>Three candidates: two chunks of one article and one chunk of another; the first
  is returned twice by the index.\<close>

definition article :: "string \<Rightarrow> payload" where
  "article t = empty_payload \<lparr>p_title := Some t\<rparr>"

definition sample_points :: "point list" where
  "sample_points =
     [\<lparr>pt_id = IntId 1, pt_payload = Some (article ''RAG''), pt_score = 1\<rparr>,
      \<lparr>pt_id = IntId 1, pt_payload = Some (article ''RAG''), pt_score = 1\<rparr>,
      \<lparr>pt_id = IntId 2, pt_payload = Some (article ''RAG''), pt_score = 1\<rparr>,
      \<lparr>pt_id = IntId 3, pt_payload = None, pt_score = 1\<rparr>,
      \<lparr>pt_id = IntId 4, pt_payload = Some (article ''Agents''), pt_score = 1\<rparr>]"

definition sample_store :: vectorstore where
  "sample_store = (\<lambda>request. Inr sample_points)"

definition empty_store :: vectorstore where
  "empty_store = (\<lambda>request. Inr [])"

section \<open>Auxiliary notions for the generation properties\<close>

text \<open>The parts of what a generator did.\<close>

definition calls_of :: "gen_out \<Rightarrow> call list" where
  "calls_of g = fst g"

definition yields :: "gen_out \<Rightarrow> string list" where
  "yields g = fst (snd g)"

definition raised :: "gen_out \<Rightarrow> exn option" where
  "raised g = snd (snd g)"

text \<open>The model named in each chat request of a list of calls.\<close>

fun requested_models :: "call list \<Rightarrow> string list" where
  "requested_models [] = []"
| "requested_models (ChatCall b request # cs) = req_model request # requested_models cs"
| "requested_models (EvalCall a p # cs) = requested_models cs"

text \<open>The delta text of a chunk, and the texts a stream carries that are not empty.\<close>

definition content_of :: "chunk \<Rightarrow> string" where
  "content_of c = (case chunk_choices c of [] \<Rightarrow> [] | ch # _ \<Rightarrow> or_empty (delta_content ch))"

definition contents :: "chunk list \<Rightarrow> string list" where
  "contents chunks = filter (\<lambda>t. t \<noteq> []) (map content_of chunks)"

text \<open>The client the orchestrator uses for a lower-case provider name.\<close>

definition backend_client :: "env \<Rightarrow> string \<Rightarrow> client option" where
  "backend_client ev provider_lower =
     (if provider_lower = ''openai'' then Some (openai_client ev)
      else if provider_lower = ''openrouter'' then Some (openrouter_client ev)
      else if provider_lower = ''huggingface'' then Some (hf_client ev)
      else None)"

text \<open>
  A backend that returns the fixed answer \<open>a\<close>: every completion has the content \<open>a\<close>,
  and every stream ends normally, has a choice in each chunk, and carries delta texts
  that join to \<open>a\<close>, none of which starts with a marker.
\<close>

definition fixed_answer_client :: "client \<Rightarrow> string \<Rightarrow> bool" where
  "fixed_answer_client cl a \<longleftrightarrow>
     (\<forall>request. \<exists>resp c cs. create cl request = Inr resp \<and> choices resp = c # cs \<and>
        or_empty (message_content c) = a) \<and>
     (\<forall>request. \<exists>chunks. create_stream cl request = Inr (chunks, None) \<and>
        (\<forall>c \<in> set chunks. chunk_choices c \<noteq> [] \<and> \<not> is_marker (content_of c)) \<and>
        concat (map content_of chunks) = a)"

definition evaluation_succeeds :: "env \<Rightarrow> bool" where
  "evaluation_succeeds ev \<longleftrightarrow> (\<forall>a p. \<exists>m. evaluate_metrics ev a p = Inr m)"

text \<open>Sample collaborators: clients that are unreachable, that stream given chunks, or
  that answer with a given completion, and an evaluation step that succeeds.\<close>

definition failing_client :: client where
  "failing_client =
     \<lparr>create = (\<lambda>request. Inl (ExternalError ''unreachable'')),
      create_stream = (\<lambda>request. Inl (ExternalError ''unreachable''))\<rparr>"

definition text_chunk :: "string \<Rightarrow> string option \<Rightarrow> chunk" where
  "text_chunk t fin =
     \<lparr>chunk_model = None, chunk_choices = [\<lparr>delta_content = Some t, finish_reason = fin\<rparr>]\<rparr>"

definition text_completion :: "string \<Rightarrow> completion" where
  "text_completion t =
     \<lparr>choices = [\<lparr>message_content = Some t, native_finish_reason = Some ''stop'',
                   choice_model = None\<rparr>],
      completion_model = None\<rparr>"

definition sample_client :: "completion \<Rightarrow> chunk_stream \<Rightarrow> client" where
  "sample_client resp s =
     \<lparr>create = (\<lambda>request. Inr resp), create_stream = (\<lambda>request. Inr s)\<rparr>"

definition sample_env :: "client \<Rightarrow> env" where
  "sample_env cl =
     \<lparr>openai_client = cl, openrouter_client = cl, hf_client = cl,
      evaluate_metrics = (\<lambda>answer prompt. Inr ''ok''),
      build_research_prompt = (\<lambda>contexts query. query)\<rparr>"

text \<open>A stream of two fragments that was cut off at the token limit, and one that
  breaks after its first fragment.\<close>

definition cut_off_stream :: chunk_stream where
  "cut_off_stream = ([text_chunk ''Hel'' None, text_chunk ''lo'' (Some ''length'')], None)"

definition broken_stream :: chunk_stream where
  "broken_stream = ([text_chunk ''Hel'' None], Some (ExternalError ''connection reset''))"

definition whole_stream :: chunk_stream where
  "whole_stream = ([text_chunk ''Hel'' None, text_chunk ''lo'' (Some ''stop'')], None)"

definition failing_evaluation :: "string \<Rightarrow> string \<Rightarrow> exn + string" where
  "failing_evaluation answer prompt = Inl (ExternalError ''evaluation failed'')"

text \<open>A backend whose whole answer is the text of the truncation marker.\<close>

definition marker_text_env :: env where
  "marker_text_env =
     sample_env (sample_client (text_completion ''__truncated__'')
       ([text_chunk ''__truncated__'' (Some ''stop'')], None))"

text \<open>The sample environment with an evaluation step that fails.\<close>

definition unevaluated_env :: env where
  "unevaluated_env =
     (sample_env (sample_client (text_completion ''Hello'') whole_stream))
       \<lparr>evaluate_metrics := failing_evaluation\<rparr>"

section \<open>Properties of the retrieval\<close>

lemma dedup_ids_kept: "dedup_ids ps seen rs = rs @ map result_of_id (kept_ids ps seen)"
  by (induction ps arbitrary: seen rs) auto

lemma kept_ids_subseq: "subseq (kept_ids ps seen) ps"
  by (induction ps arbitrary: seen) auto

lemma kept_ids_fresh: "p \<in> set (kept_ids ps seen) \<Longrightarrow> pt_id p \<notin> seen"
  by (induction ps arbitrary: seen) (auto split: if_splits)

lemma kept_ids_distinct: "distinct (map pt_id (kept_ids ps seen))"
  by (induction ps arbitrary: seen) (auto dest: kept_ids_fresh)

lemma dedup_titles_kept:
  "dedup_titles ps seen rs limit =
     rs @ map (\<lambda>p. result_of_title (title_of p) p) (kept_titles ps seen (length rs) limit)"
  by (induction ps arbitrary: seen rs) (auto simp: Let_def titled_def title_of_def)

lemma kept_titles_subseq: "subseq (kept_titles ps seen k limit) ps"
  by (induction ps arbitrary: seen k) auto

lemma kept_titles_fresh:
  "p \<in> set (kept_titles ps seen k limit) \<Longrightarrow> title_of p \<notin> seen \<and> titled p"
  by (induction ps arbitrary: seen k) (auto split: if_splits)

lemma kept_titles_distinct: "distinct (map title_of (kept_titles ps seen k limit))"
  by (induction ps arbitrary: seen k) (auto dest: kept_titles_fresh)

lemma kept_titles_length:
  "int k < limit \<Longrightarrow> k + length (kept_titles ps seen k limit) \<le> nat limit"
proof (induction ps arbitrary: seen k)
  case Nil
  then show ?case by simp
next
  case (Cons p ps)
  show ?case
  proof (cases "\<not> titled p \<or> title_of p \<in> seen")
    case True
    then show ?thesis using Cons by auto
  next
    case False
    show ?thesis
    proof (cases "limit \<le> int (Suc k)")
      case True
      then show ?thesis using False Cons.prems by simp
    next
      case stay: False
      then have "int (Suc k) < limit" by simp
      from Cons.IH [OF this, of "insert (title_of p) seen"]
      show ?thesis using False stay by simp
    qed
  qed
qed

lemma title_result_of_title: "title (result_of_title t p) = t"
  by (simp add: result_of_title_def Let_def)

lemma slice_to_nonneg: "0 \<le> limit \<Longrightarrow> slice_to xs limit = take (nat limit) xs"
  by (simp add: slice_to_def)

lemma subseq_take: "subseq (take n xs) xs"
proof -
  have "prefix (take n xs) xs"
    by (rule take_is_prefix)
  then show ?thesis
    by (rule prefix_imp_subseq)
qed

lemma first_titled_at_limit_zero:
  "find titled ps = Some p \<Longrightarrow> dedup_titles ps {} [] 0 = [result_of_title (title_of p) p]"
  by (induction ps) (auto simp: Let_def titled_def title_of_def)

lemma sample_points_eval:
  "kept_ids sample_points {} =
     [\<lparr>pt_id = IntId 1, pt_payload = Some (article ''RAG''), pt_score = 1\<rparr>,
      \<lparr>pt_id = IntId 2, pt_payload = Some (article ''RAG''), pt_score = 1\<rparr>,
      \<lparr>pt_id = IntId 3, pt_payload = None, pt_score = 1\<rparr>,
      \<lparr>pt_id = IntId 4, pt_payload = Some (article ''Agents''), pt_score = 1\<rparr>]"
  by (simp add: sample_points_def)

text \<open>
  C1. For a limit \<open>L \<ge> 1\<close> and any candidate list the index returns, both searches
  return at most \<open>L\<close> results; the results are the images of a subsequence \<open>ks\<close> of the
  candidate list, so they come in the order of the candidates; no two of the kept
  candidates have the same point id (\<open>query_with_filters\<close>), and no two results have
  the same title (\<open>query_unique_titles\<close>).
\<close>

theorem search_bounded_distinct_ordered:
  assumes "1 \<le> L"
  shows "(vs (search_request qt fa fn tk (max 1 L * 100)) = Inr pts \<longrightarrow>
           (\<exists>ks. query_with_filters vs qt fa fn tk L = Inr (map result_of_id ks) \<and>
                 subseq ks pts \<and> distinct (map pt_id ks) \<and> int (length ks) \<le> L)) \<and>
         (vs (search_request qt fa fn tk (max 1 L * 280)) = Inr pts' \<longrightarrow>
           (\<exists>ks rs. query_unique_titles vs qt fa fn tk L = Inr rs \<and>
                 rs = map (\<lambda>p. result_of_title (title_of p) p) ks \<and>
                 subseq ks pts' \<and> distinct (map title rs) \<and> int (length rs) \<le> L))"
proof (intro conjI impI)
  assume r: "vs (search_request qt fa fn tk (max 1 L * 100)) = Inr pts"
  let ?ks = "take (nat L) (kept_ids pts {})"
  have "query_with_filters vs qt fa fn tk L = Inr (map result_of_id ?ks)"
    using assms r by (simp add: query_with_filters_def dedup_ids_kept slice_to_nonneg take_map)
  moreover have "subseq ?ks pts"
    using subseq_take kept_ids_subseq subseq_order.order_trans by blast
  moreover have "distinct (map pt_id ?ks)"
    using kept_ids_distinct [of pts "{}"] by (simp add: take_map [symmetric] distinct_take)
  moreover have "int (length ?ks) \<le> L"
    using assms by simp
  ultimately show "\<exists>ks. query_with_filters vs qt fa fn tk L = Inr (map result_of_id ks) \<and>
                 subseq ks pts \<and> distinct (map pt_id ks) \<and> int (length ks) \<le> L"
    by blast
next
  assume r: "vs (search_request qt fa fn tk (max 1 L * 280)) = Inr pts'"
  let ?ks = "kept_titles pts' {} 0 L"
  let ?rs = "map (\<lambda>p. result_of_title (title_of p) p) ?ks"
  have "query_unique_titles vs qt fa fn tk L = Inr ?rs"
    using r by (simp add: query_unique_titles_def dedup_titles_kept)
  moreover have "subseq ?ks pts'"
    by (rule kept_titles_subseq)
  moreover have "distinct (map title ?rs)"
    using kept_titles_distinct [of pts' "{}" 0 L] by (simp add: o_def title_result_of_title)
  moreover have "int (length ?rs) \<le> L"
    using kept_titles_length [of 0 L pts' "{}"] assms by simp
  ultimately show "\<exists>ks rs. query_unique_titles vs qt fa fn tk L = Inr rs \<and>
                 rs = map (\<lambda>p. result_of_title (title_of p) p) ks \<and>
                 subseq ks pts' \<and> distinct (map title rs) \<and> int (length rs) \<le> L"
    by blast
qed

theorem search_bounded_distinct_ordered_witness:
  "(1::int) \<le> 2 \<and>
   sample_store (search_request ''rag'' None None None (max 1 2 * 100)) = Inr sample_points \<and>
   sample_store (search_request ''rag'' None None None (max 1 2 * 280)) = Inr sample_points \<and>
   (\<exists>ks. query_with_filters sample_store ''rag'' None None None 2 = Inr (map result_of_id ks) \<and>
         subseq ks sample_points \<and> distinct (map pt_id ks) \<and> int (length ks) \<le> 2) \<and>
   (\<exists>ks rs. query_unique_titles sample_store ''rag'' None None None 2 = Inr rs \<and>
         rs = map (\<lambda>p. result_of_title (title_of p) p) ks \<and>
         subseq ks sample_points \<and> distinct (map title rs) \<and> int (length rs) \<le> 2)"
  using search_bounded_distinct_ordered
    [of 2 sample_store "''rag''" None None None sample_points sample_points]
  by (simp add: sample_store_def)

text \<open>
  C8. When the index returns no candidate, both searches return the empty list, for
  every limit, and raise nothing.
\<close>

theorem empty_match_returns_empty:
  "(vs (search_request qt fa fn tk (max 1 limit * 100)) = Inr [] \<longrightarrow>
      query_with_filters vs qt fa fn tk limit = Inr []) \<and>
   (vs (search_request qt fa fn tk (max 1 limit * 280)) = Inr [] \<longrightarrow>
      query_unique_titles vs qt fa fn tk limit = Inr [])"
  by (simp add: query_with_filters_def query_unique_titles_def slice_to_def)

theorem empty_match_returns_empty_witness:
  "empty_store (search_request ''rag'' (Some ''nobody'') None None (max 1 5 * 100)) = Inr [] \<and>
   empty_store (search_request ''rag'' (Some ''nobody'') None None (max 1 5 * 280)) = Inr [] \<and>
   query_with_filters empty_store ''rag'' (Some ''nobody'') None None 5 = Inr [] \<and>
   query_unique_titles empty_store ''rag'' (Some ''nobody'') None None 5 = Inr []"
  using empty_match_returns_empty [of empty_store "''rag''" "Some ''nobody''" None None 5]
  by (simp add: empty_store_def)

text \<open>
  C9. With limit 0, \<open>query_with_filters\<close> returns the empty list, whatever the
  candidates, while \<open>query_unique_titles\<close> returns one result, made from the first
  candidate that has a title, as soon as there is one.
\<close>

theorem limit_zero_modes_disagree:
  "(vs (search_request qt fa fn tk (max 1 0 * 100)) = Inr pts \<longrightarrow>
      query_with_filters vs qt fa fn tk 0 = Inr []) \<and>
   (vs (search_request qt fa fn tk (max 1 0 * 280)) = Inr pts' \<and> find titled pts' = Some p \<longrightarrow>
      query_unique_titles vs qt fa fn tk 0 = Inr [result_of_title (title_of p) p])"
  by (simp add: query_with_filters_def query_unique_titles_def slice_to_def
      first_titled_at_limit_zero)

theorem limit_zero_modes_disagree_witness:
  "sample_store (search_request ''rag'' None None None (max 1 0 * 100)) = Inr sample_points \<and>
   sample_store (search_request ''rag'' None None None (max 1 0 * 280)) = Inr sample_points \<and>
   find titled sample_points = Some (hd sample_points) \<and>
   query_with_filters sample_store ''rag'' None None None 0 = Inr [] \<and>
   query_unique_titles sample_store ''rag'' None None None 0 =
     Inr [result_of_title (title_of (hd sample_points)) (hd sample_points)]"
proof -
  have f: "find titled sample_points = Some (hd sample_points)"
    by (simp add: sample_points_def titled_def payload_or_empty_def article_def
        empty_payload_def)
  have s: "sample_store (search_request ''rag'' None None None (max 1 0 * 280))
             = Inr sample_points"
    by (simp add: sample_store_def)
  show ?thesis
    using limit_zero_modes_disagree
      [of sample_store "''rag''" None None None sample_points sample_points "hd sample_points"]
      f s
    by (simp add: sample_store_def)
qed

section \<open>Properties of the generation\<close>

subsection \<open>Evaluation of the sample inputs\<close>

lemma lower_names:
  "lower ''openai'' = ''openai''"
  "lower ''openrouter'' = ''openrouter''"
  "lower ''huggingface'' = ''huggingface''"
  "lower ''OpenRouter'' = ''openrouter''"
  "lower ''HuggingFace'' = ''huggingface''"
  "lower ''Not-A-Real-Provider'' = ''not-a-real-provider''"
  by code_simp+

lemmas sample_defs = sample_env_def sample_client_def text_chunk_def text_completion_def
  cut_off_stream_def broken_stream_def whole_stream_def failing_client_def
  failing_evaluation_def

lemmas registry_defs = get_config_def MODEL_REGISTRY_def default_config_def lower_names

lemma registry_lookups:
  "MODEL_REGISTRY ''not-a-real-provider'' = None"
  "MODEL_REGISTRY ''openai'' = None"
  "MODEL_REGISTRY ''huggingface'' =
     Some (default_config \<lparr>primary_model := ''deepseek-ai/DeepSeek-R1''\<rparr>)"
  by (simp_all add: MODEL_REGISTRY_def)

subsection \<open>Lower-casing and the loops over the chunks\<close>

lemma lower_char_idem: "lower_char (lower_char c) = lower_char c"
  unfolding lower_char_def Let_def by auto

lemma lower_idem: "lower (lower s) = lower s"
  by (simp add: lower_def lower_char_idem)

lemma truthy_iff: "truthy t \<longleftrightarrow> (\<exists>s. t = Some s \<and> s \<noteq> [])"
  by (cases t) auto

lemma fst_chunk_loop_Cons:
  "fst (chunk_loop (c # cs) l) =
     (case chunk_choices c of
        [] \<Rightarrow> []
      | ch # _ \<Rightarrow>
          (if truthy (delta_content ch) then [the (delta_content ch)] else []) @
          fst (chunk_loop cs (if truthy (finish_reason ch) then finish_reason ch else l)))"
  by (simp add: Let_def split: list.splits prod.splits)

lemma chunk_loop_nonempty: "s \<in> set (fst (chunk_loop cs l)) \<Longrightarrow> s \<noteq> []"
proof (induction cs arbitrary: l)
  case Nil
  then show ?case by simp
next
  case (Cons c cs)
  then show ?case
    unfolding fst_chunk_loop_Cons
    by (auto simp: truthy_iff split: list.splits if_splits)
qed

lemma fst_hf_loop_Cons:
  "fst (hf_loop (c # cs)) =
     (case chunk_choices c of
        [] \<Rightarrow> []
      | ch # _ \<Rightarrow>
          (if truthy (delta_content ch) then [the (delta_content ch)] else []) @
          fst (hf_loop cs))"
  by (simp add: Let_def split: list.splits prod.splits)

lemma hf_loop_nonempty: "s \<in> set (fst (hf_loop cs)) \<Longrightarrow> s \<noteq> []"
proof (induction cs)
  case Nil
  then show ?case by simp
next
  case (Cons c cs)
  then show ?case
    unfolding fst_hf_loop_Cons
    by (auto simp: truthy_iff split: list.splits if_splits)
qed

lemma fst_finish_stream:
  "set (fst (finish_stream looped se)) \<subseteq> set (fst looped) \<union> {''__truncated__''}"
  by (auto simp: finish_stream_def split: prod.splits option.splits if_splits)

lemma finish_stream_nonempty:
  assumes "s \<in> set (fst (finish_stream (chunk_loop cs l) se))"
  shows "s \<noteq> []"
proof -
  from assms fst_finish_stream [of "chunk_loop cs l" se]
  have "s \<in> set (fst (chunk_loop cs l)) \<or> s = ''__truncated__''" by auto
  then show ?thesis using chunk_loop_nonempty by auto
qed

lemma finish_stream_nonempty_eq:
  "finish_stream (chunk_loop cs l) se = (zs, r) \<Longrightarrow> [] \<notin> set zs"
  using finish_stream_nonempty [of "[]" cs l se] by auto

lemma hf_loop_nonempty_eq: "hf_loop cs = (ys, e) \<Longrightarrow> [] \<notin> set ys"
  using hf_loop_nonempty [of "[]" cs] by auto

lemma stream_openai_nonempty: "s \<in> set (yields (stream_openai ev prompt config)) \<Longrightarrow> s \<noteq> []"
  unfolding stream_openai_def yields_def Let_def
  by (auto split: sum.splits prod.splits dest: finish_stream_nonempty_eq finish_stream_nonempty)

lemma stream_huggingface_nonempty:
  "s \<in> set (yields (stream_huggingface ev prompt config)) \<Longrightarrow> s \<noteq> []"
  unfolding stream_huggingface_def yields_def Let_def
  by (auto split: sum.splits prod.splits option.splits dest: hf_loop_nonempty_eq)

lemma stream_openrouter_nonempty:
  "s \<in> set (yields (stream_openrouter ev prompt config sel)) \<Longrightarrow> s \<noteq> []"
  unfolding stream_openrouter_def yields_def Let_def
  by (auto simp: truthy_iff split: sum.splits prod.splits list.splits if_splits
      dest: finish_stream_nonempty_eq)

lemma stream_gen_nonempty:
  "s \<in> set (yields (stream_gen ev provider pl prompt config sel)) \<Longrightarrow> s \<noteq> []"
proof -
  assume a: "s \<in> set (yields (stream_gen ev provider pl prompt config sel))"
  consider "pl = ''openai''" | "pl \<noteq> ''openai''" "pl = ''openrouter''"
    | "pl \<noteq> ''openai''" "pl \<noteq> ''openrouter''" "pl = ''huggingface''"
    | "pl \<noteq> ''openai''" "pl \<noteq> ''openrouter''" "pl \<noteq> ''huggingface''" by blast
  then show ?thesis
  proof cases
    case 1
    then show ?thesis using a stream_openai_nonempty by (simp add: stream_gen_def)
  next
    case 2
    obtain calls buffer r where g: "stream_openrouter ev prompt config sel = (calls, buffer, r)"
      by (cases "stream_openrouter ev prompt config sel") auto
    have b: "\<forall>t \<in> set buffer. t \<noteq> []"
      using stream_openrouter_nonempty [of _ ev prompt config sel] g by (simp add: yields_def)
    from a 2 g have "s \<in> set buffer \<or> s = ''__error__''"
      by (auto simp: stream_gen_def yields_def Let_def split: option.splits sum.splits)
    then show ?thesis using b by auto
  next
    case 3
    then show ?thesis using a stream_huggingface_nonempty by (simp add: stream_gen_def)
  next
    case 4
    then show ?thesis using a by (simp add: stream_gen_def yields_def)
  qed
qed

lemma get_config_lower:
  "get_config registry (lower p) =
     (case registry (lower p) of
        None \<Rightarrow> Inl (ValueError (''ModelConfig not found for provider: '' @ lower p))
      | Some config \<Rightarrow> Inr config)"
  by (simp add: get_config_def lower_idem)

subsection \<open>The claims\<close>

text \<open>
  C2. The claim asks every adapter to end a stream that was cut off at the token limit
  with one \<open>__truncated__\<close> chunk. On a stream of the fragments \<open>Hel\<close>, \<open>lo\<close> whose last
  chunk has the finish reason \<open>length\<close>, the Hugging Face path of the registered
  provider \<open>huggingface\<close> yields the two fragments and ends with no marker, while
  \<open>stream_openai\<close> on the same stream appends the marker.
\<close>

theorem huggingface_stream_omits_truncation_marker:
  "get_streaming_function (sample_env (sample_client (text_completion ''Hello'') cut_off_stream))
       MODEL_REGISTRY ''huggingface'' ''q'' [] None
     = Inr ([ChatCall HuggingFace
              \<lparr>req_model = ''deepseek-ai/DeepSeek-R1'', req_messages = [UserMessage ''q''],
               req_temperature = 0, req_max_tokens = 5000, req_extra_body = None,
               req_stream = True\<rparr>],
            [''Hel'', ''lo''], None) \<and>
   yields (stream_openai (sample_env (sample_client (text_completion ''Hello'') cut_off_stream))
       ''q'' default_config) = [''Hel'', ''lo'', ''__truncated__'']"
  by (simp add: get_streaming_function_def registry_defs stream_gen_def
      stream_huggingface_def stream_openai_def finish_stream_def yields_def sample_defs
      build_messages_def)

text \<open>
  C3. The claim asks for one \<open>__error__\<close> chunk after the fragments already yielded when
  the backend raises in mid-stream, for every provider. On a stream that raises after
  the fragment \<open>Hel\<close>, the generator of the provider \<open>huggingface\<close> yields \<open>Hel\<close> and then
  raises the backend's exception itself, with no \<open>__error__\<close> chunk; the generator of
  \<open>openrouter\<close> on the same stream yields \<open>Hel\<close>, \<open>__error__\<close> and ends normally.
\<close>

theorem unguarded_stream_raises_without_error_marker:
  "get_streaming_function (sample_env (sample_client (text_completion ''Hello'') broken_stream))
       MODEL_REGISTRY ''huggingface'' ''q'' [] None
     = Inr ([ChatCall HuggingFace
              \<lparr>req_model = ''deepseek-ai/DeepSeek-R1'', req_messages = [UserMessage ''q''],
               req_temperature = 0, req_max_tokens = 5000, req_extra_body = None,
               req_stream = True\<rparr>],
            [''Hel''], Some (ExternalError ''connection reset'')) \<and>
   get_streaming_function (sample_env (sample_client (text_completion ''Hello'') broken_stream))
       MODEL_REGISTRY ''openrouter'' ''q'' [] None
     = Inr ([ChatCall OpenRouter
              \<lparr>req_model = ''openai/gpt-oss-20b:free'', req_messages = [UserMessage ''q''],
               req_temperature = 0, req_max_tokens = 5000,
               req_extra_body = Some
                 \<lparr>eb_provider_sort = ''latency'',
                  eb_models = Some
                    [''cognitivecomputations/dolphin-mistral-24b-venice-edition:free'',
                     ''nvidia/nemotron-nano-9b-v2:free'']\<rparr>,
               req_stream = True\<rparr>],
            [''Hel'', ''__error__''], None)"
  by (simp add: get_streaming_function_def registry_defs stream_gen_def
      stream_huggingface_def stream_openrouter_def finish_stream_def sample_defs
      build_messages_def build_openrouter_extra_def sort_value_def model_to_use_def)

text \<open>
  C4. Resolution reads the registry at the lower-cased name only: two names with the
  same lower-case form resolve to the same configuration, and both paths behave the
  same on them (when the name is not registered, or is one of the three dispatched
  names). A name whose lower-case form is not registered makes the batch path fail
  with the \<open>ValueError\<close> of the registry after no call at all, and makes
  \<open>get_streaming_function\<close> raise the same error instead of returning a generator.
\<close>

theorem unknown_provider_fails_before_any_call:
  "(lower p = lower p' \<longrightarrow>
      (get_config registry p = Inr config \<longleftrightarrow> get_config registry p' = Inr config) \<and>
      (registry (lower p) = None \<or> lower p \<in> {''openai'', ''openrouter'', ''huggingface''} \<longrightarrow>
         generate_answer ev registry query contexts p sel =
           generate_answer ev registry query contexts p' sel \<and>
         get_streaming_function ev registry p query contexts sel =
           get_streaming_function ev registry p' query contexts sel)) \<and>
   (registry (lower p) = None \<longrightarrow>
      generate_answer ev registry query contexts p sel =
        ([], Inl (ValueError (''ModelConfig not found for provider: '' @ lower p))) \<and>
      get_streaming_function ev registry p query contexts sel =
        Inl (ValueError (''ModelConfig not found for provider: '' @ lower p)))"
proof (intro conjI impI)
  assume l: "lower p = lower p'"
  show "(get_config registry p = Inr config) = (get_config registry p' = Inr config)"
    using l by (simp add: get_config_def split: option.splits)
next
  assume l: "lower p = lower p'"
    and r: "registry (lower p) = None \<or> lower p \<in> {''openai'', ''openrouter'', ''huggingface''}"
  show "generate_answer ev registry query contexts p sel =
          generate_answer ev registry query contexts p' sel"
    using l r unfolding generate_answer_def Let_def get_config_lower
    by (auto split: option.splits)
next
  assume l: "lower p = lower p'"
    and r: "registry (lower p) = None \<or> lower p \<in> {''openai'', ''openrouter'', ''huggingface''}"
  show "get_streaming_function ev registry p query contexts sel =
          get_streaming_function ev registry p' query contexts sel"
    using l r unfolding get_streaming_function_def Let_def get_config_lower stream_gen_def
    by (auto split: option.splits)
next
  assume "registry (lower p) = None"
  then show "generate_answer ev registry query contexts p sel =
        ([], Inl (ValueError (''ModelConfig not found for provider: '' @ lower p)))"
    unfolding generate_answer_def Let_def get_config_lower by simp
next
  assume "registry (lower p) = None"
  then show "get_streaming_function ev registry p query contexts sel =
        Inl (ValueError (''ModelConfig not found for provider: '' @ lower p))"
    unfolding get_streaming_function_def Let_def get_config_lower by simp
qed

theorem unknown_provider_fails_before_any_call_witness:
  "lower ''OpenRouter'' = lower ''openrouter'' \<and>
   lower ''OpenRouter'' \<in> {''openai'', ''openrouter'', ''huggingface''} \<and>
   generate_answer (sample_env failing_client) MODEL_REGISTRY ''q'' [] ''OpenRouter'' None =
     generate_answer (sample_env failing_client) MODEL_REGISTRY ''q'' [] ''openrouter'' None \<and>
   MODEL_REGISTRY (lower ''Not-A-Real-Provider'') = None \<and>
   generate_answer (sample_env failing_client) MODEL_REGISTRY ''q'' []
       ''Not-A-Real-Provider'' None =
     ([], Inl (ValueError ''ModelConfig not found for provider: not-a-real-provider'')) \<and>
   get_streaming_function (sample_env failing_client) MODEL_REGISTRY
       ''Not-A-Real-Provider'' ''q'' [] None =
     Inl (ValueError ''ModelConfig not found for provider: not-a-real-provider'')"
  using unknown_provider_fails_before_any_call
      [of "''OpenRouter''" "''openrouter''" MODEL_REGISTRY default_config
          "sample_env failing_client" "''q''" "[]" None]
    unknown_provider_fails_before_any_call
      [of "''Not-A-Real-Provider''" "''Not-A-Real-Provider''" MODEL_REGISTRY default_config
          "sample_env failing_client" "''q''" "[]" None]
  by (simp add: lower_names registry_lookups)

text \<open>
  C10. No chunk yielded by a streaming adapter, or by the orchestrator's generator, is
  the empty string: a delta text is yielded only when it is not empty, and the markers
  are not empty.
\<close>

theorem streamed_chunks_never_empty:
  "(\<forall>s \<in> set (yields (stream_openai ev prompt config)). s \<noteq> []) \<and>
   (\<forall>s \<in> set (yields (stream_openrouter ev prompt config sel)). s \<noteq> []) \<and>
   (\<forall>s \<in> set (yields (stream_huggingface ev prompt config)). s \<noteq> []) \<and>
   (\<forall>s \<in> set (yields (stream_gen ev provider provider_lower prompt config sel)). s \<noteq> [])"
  using stream_openai_nonempty stream_openrouter_nonempty stream_huggingface_nonempty
    stream_gen_nonempty by blast

theorem streamed_chunks_never_empty_witness:
  "yields (stream_openai (sample_env (sample_client (text_completion ''Hello'')
       ([text_chunk [] None, text_chunk ''Hel'' None, text_chunk ''lo'' (Some ''length'')], None)))
     ''q'' default_config) = [''Hel'', ''lo'', ''__truncated__''] \<and>
   ''lo'' \<in> set (yields (stream_openai (sample_env (sample_client (text_completion ''Hello'')
       ([text_chunk [] None, text_chunk ''Hel'' None, text_chunk ''lo'' (Some ''length'')], None)))
     ''q'' default_config)) \<and>
   ''lo'' \<noteq> []"
  using streamed_chunks_never_empty
    [of "sample_env (sample_client (text_completion ''Hello'')
       ([text_chunk [] None, text_chunk ''Hel'' None, text_chunk ''lo'' (Some ''length'')], None))"
      "''q''" default_config None "''openai''" "''openai''"]
  by (simp add: stream_openai_def yields_def finish_stream_def sample_defs)

subsection \<open>Dispatch on a resolved provider, and the model each path requests\<close>

lemma requested_models_append:
  "requested_models (xs @ ys) = requested_models xs @ requested_models ys"
  by (induction xs rule: requested_models.induct) auto

lemma get_config_resolved:
  "registry (lower p) = Some config \<Longrightarrow> get_config registry (lower p) = Inr config"
  by (simp add: get_config_lower)

lemma generate_answer_openai:
  assumes "registry (lower p) = Some config" and "lower p = ''openai''"
  shows "generate_answer ev registry query contexts p sel =
     (case generate_openai ev (build_research_prompt ev contexts query) config of
        (calls, Inl e) \<Rightarrow> (calls, Inl e)
      | (calls, Inr (a, model_used)) \<Rightarrow>
          (calls, Inr \<lparr>ans_answer = a, ans_sources = map url contexts,
                       ans_model = model_used, ans_finish_reason = None\<rparr>))"
  unfolding generate_answer_def Let_def get_config_resolved [of registry p config, OF assms(1)]
  using assms(2) by simp

lemma generate_answer_openrouter:
  assumes "registry (lower p) = Some config" and "lower p = ''openrouter''"
  shows "generate_answer ev registry query contexts p sel =
     (case generate_openrouter ev (build_research_prompt ev contexts query) config sel of
        (calls, Inl e) \<Rightarrow> (calls, Inl e)
      | (calls, Inr (a, model_used, fin)) \<Rightarrow>
          (case evaluate_metrics ev a (build_research_prompt ev contexts query) of
             Inl e \<Rightarrow>
               (calls @ [EvalCall a (build_research_prompt ev contexts query)], Inl e)
           | Inr metrics_results \<Rightarrow>
               (calls @ [EvalCall a (build_research_prompt ev contexts query)],
                Inr \<lparr>ans_answer = a, ans_sources = map url contexts,
                     ans_model = model_used, ans_finish_reason = fin\<rparr>)))"
  unfolding generate_answer_def Let_def get_config_resolved [of registry p config, OF assms(1)]
  using assms(2) by simp

lemma generate_answer_huggingface:
  assumes "registry (lower p) = Some config" and "lower p = ''huggingface''"
  shows "generate_answer ev registry query contexts p sel =
     (case generate_huggingface ev (build_research_prompt ev contexts query) config of
        (calls, Inl e) \<Rightarrow> (calls, Inl e)
      | (calls, Inr (a, model_used)) \<Rightarrow>
          (calls, Inr \<lparr>ans_answer = a, ans_sources = map url contexts,
                       ans_model = model_used, ans_finish_reason = None\<rparr>))"
  unfolding generate_answer_def Let_def get_config_resolved [of registry p config, OF assms(1)]
  using assms(2) by simp

lemma get_streaming_function_resolved:
  assumes "registry (lower p) = Some config"
  shows "get_streaming_function ev registry p query contexts sel =
     Inr (stream_gen ev p (lower p) (build_research_prompt ev contexts query) config sel)"
  unfolding get_streaming_function_def Let_def get_config_resolved [of registry p config, OF assms] by simp

lemma stream_gen_openai:
  "stream_gen ev p ''openai'' prompt config sel = stream_openai ev prompt config"
  by (simp add: stream_gen_def)

lemma stream_gen_huggingface:
  "stream_gen ev p ''huggingface'' prompt config sel = stream_huggingface ev prompt config"
  by (simp add: stream_gen_def)

lemma stream_gen_openrouter:
  "stream_gen ev p ''openrouter'' prompt config sel =
     (case stream_openrouter ev prompt config sel of
        (calls, buffer, Some e) \<Rightarrow> (calls, buffer @ [''__error__''], None)
      | (calls, buffer, None) \<Rightarrow>
          (case evaluate_metrics ev (concat buffer) prompt of
             Inl e \<Rightarrow> (calls @ [EvalCall (concat buffer) prompt], buffer @ [''__error__''], None)
           | Inr metrics_results \<Rightarrow> (calls @ [EvalCall (concat buffer) prompt], buffer, None)))"
  by (simp add: stream_gen_def Let_def)

lemma generate_openrouter_model:
  "requested_models (fst (generate_openrouter ev prompt config sel)) =
     [if truthy sel then the sel else primary_model config]"
  by (simp add: generate_openrouter_def Let_def model_to_use_def)

lemma stream_openrouter_model:
  "requested_models (calls_of (stream_openrouter ev prompt config sel)) =
     [if truthy sel then the sel else primary_model config]"
  by (simp add: stream_openrouter_def Let_def model_to_use_def calls_of_def
      split: sum.splits prod.splits list.splits)

lemma generate_huggingface_model:
  "requested_models (fst (generate_huggingface ev prompt config)) = [primary_model config]"
  by (simp add: generate_huggingface_def Let_def)

lemma stream_huggingface_model:
  "requested_models (calls_of (stream_huggingface ev prompt config)) = [primary_model config]"
  by (simp add: stream_huggingface_def Let_def calls_of_def
      split: sum.splits prod.splits list.splits option.splits)

lemma stream_openai_model:
  "requested_models (calls_of (stream_openai ev prompt config)) = [primary_model config]"
  by (simp add: stream_openai_def Let_def calls_of_def
      split: sum.splits prod.splits list.splits option.splits)

lemma generate_answer_openrouter_model:
  assumes "registry (lower p) = Some config" "lower p = ''openrouter''"
  shows "requested_models (fst (generate_answer ev registry query contexts p sel)) =
     [if truthy sel then the sel else primary_model config]"
proof -
  let ?prompt = "build_research_prompt ev contexts query"
  obtain calls r where g: "generate_openrouter ev ?prompt config sel = (calls, r)"
    by (cases "generate_openrouter ev ?prompt config sel") auto
  have m: "requested_models calls = [if truthy sel then the sel else primary_model config]"
    using generate_openrouter_model [of ev ?prompt config sel] g by simp
  show ?thesis
    unfolding generate_answer_openrouter [of registry p config, OF assms] g
    using m by (auto simp: requested_models_append split: sum.splits prod.splits)
qed

lemma generate_answer_huggingface_model:
  assumes "registry (lower p) = Some config" "lower p = ''huggingface''"
  shows "requested_models (fst (generate_answer ev registry query contexts p sel)) =
     [primary_model config]"
proof -
  let ?prompt = "build_research_prompt ev contexts query"
  obtain calls r where g: "generate_huggingface ev ?prompt config = (calls, r)"
    by (cases "generate_huggingface ev ?prompt config") auto
  have m: "requested_models calls = [primary_model config]"
    using generate_huggingface_model [of ev ?prompt config] g by simp
  show ?thesis
    unfolding generate_answer_huggingface [of registry p config, OF assms] g
    using m by (auto split: sum.splits prod.splits)
qed

lemma stream_gen_openrouter_model:
  "requested_models (calls_of (stream_gen ev p ''openrouter'' prompt config sel)) =
     [if truthy sel then the sel else primary_model config]"
proof -
  obtain calls buffer r where g: "stream_openrouter ev prompt config sel = (calls, buffer, r)"
    by (cases "stream_openrouter ev prompt config sel") auto
  have m: "requested_models calls = [if truthy sel then the sel else primary_model config]"
    using stream_openrouter_model [of ev prompt config sel] g by (simp add: calls_of_def)
  show ?thesis
    unfolding stream_gen_openrouter g
    using m by (auto simp: requested_models_append calls_of_def split: sum.splits option.splits)
qed

text \<open>
  C6, as stated, fails: with the registered provider \<open>huggingface\<close> and the override
  \<open>my/model\<close>, the one request sent names the configured primary model.
\<close>

theorem override_ignored_counterexample:
  "requested_models (fst (generate_answer (sample_env failing_client) MODEL_REGISTRY ''q'' []
      ''huggingface'' (Some ''my/model''))) = [''deepseek-ai/DeepSeek-R1''] \<and>
   ''deepseek-ai/DeepSeek-R1'' \<noteq> ''my/model''"
  by (simp add: generate_answer_def registry_defs generate_huggingface_def sample_defs)

text \<open>
  C6, amended. For a registered provider: the OpenRouter path, batch and streaming,
  requests the override when it is a string that is not empty, and the configured
  primary model otherwise; the Hugging Face path, batch and streaming, and the OpenAI
  streaming path request the configured primary model whatever the override is.
\<close>

theorem override_honoured_by_openrouter_only:
  assumes "registry (lower p) = Some config"
  shows "(lower p = ''openrouter'' \<longrightarrow>
            requested_models (fst (generate_answer ev registry query contexts p sel)) =
              [if truthy sel then the sel else primary_model config] \<and>
            (\<exists>g. get_streaming_function ev registry p query contexts sel = Inr g \<and>
                 requested_models (calls_of g) =
                   [if truthy sel then the sel else primary_model config])) \<and>
         (lower p = ''huggingface'' \<longrightarrow>
            requested_models (fst (generate_answer ev registry query contexts p sel)) =
              [primary_model config] \<and>
            (\<exists>g. get_streaming_function ev registry p query contexts sel = Inr g \<and>
                 requested_models (calls_of g) = [primary_model config])) \<and>
         (lower p = ''openai'' \<longrightarrow>
            (\<exists>g. get_streaming_function ev registry p query contexts sel = Inr g \<and>
                 requested_models (calls_of g) = [primary_model config]))"
proof (intro conjI impI)
  assume l: "lower p = ''openrouter''"
  show "requested_models (fst (generate_answer ev registry query contexts p sel)) =
          [if truthy sel then the sel else primary_model config]"
    by (rule generate_answer_openrouter_model [of registry p config, OF assms l])
  show "\<exists>g. get_streaming_function ev registry p query contexts sel = Inr g \<and>
          requested_models (calls_of g) = [if truthy sel then the sel else primary_model config]"
    unfolding get_streaming_function_resolved [of registry p config, OF assms] l
    using stream_gen_openrouter_model by blast
next
  assume l: "lower p = ''huggingface''"
  show "requested_models (fst (generate_answer ev registry query contexts p sel)) =
          [primary_model config]"
    by (rule generate_answer_huggingface_model [of registry p config, OF assms l])
  show "\<exists>g. get_streaming_function ev registry p query contexts sel = Inr g \<and>
          requested_models (calls_of g) = [primary_model config]"
    unfolding get_streaming_function_resolved [of registry p config, OF assms] l stream_gen_huggingface
    using stream_huggingface_model by blast
next
  assume l: "lower p = ''openai''"
  show "\<exists>g. get_streaming_function ev registry p query contexts sel = Inr g \<and>
          requested_models (calls_of g) = [primary_model config]"
    unfolding get_streaming_function_resolved [of registry p config, OF assms] l stream_gen_openai
    using stream_openai_model by blast
qed

theorem override_honoured_by_openrouter_only_witness:
  "MODEL_REGISTRY (lower ''HuggingFace'') =
     Some (default_config \<lparr>primary_model := ''deepseek-ai/DeepSeek-R1''\<rparr>) \<and>
   lower ''HuggingFace'' = ''huggingface'' \<and>
   requested_models (fst (generate_answer (sample_env failing_client) MODEL_REGISTRY ''q'' []
       ''HuggingFace'' (Some ''my/model''))) = [''deepseek-ai/DeepSeek-R1'']"
  using override_honoured_by_openrouter_only
    [of MODEL_REGISTRY "''HuggingFace''"
        "default_config \<lparr>primary_model := ''deepseek-ai/DeepSeek-R1''\<rparr>"
        "sample_env failing_client" "''q''" "[]" "Some ''my/model''"]
  by (simp add: lower_names registry_lookups default_config_def)

text \<open>
  C7, as stated, fails: with the provider \<open>openrouter\<close>, a backend that answers
  \<open>Hello\<close> and an evaluation step that raises, the batch call ends with the
  evaluation's exception instead of the answer, and the stream, which is \<open>Hel\<close>, \<open>lo\<close>
  when the evaluation succeeds, gets the further chunk \<open>__error__\<close>.
\<close>

theorem evaluation_failure_changes_outcome_counterexample:
  "snd (generate_answer unevaluated_env MODEL_REGISTRY ''q'' [] ''openrouter'' None) =
     Inl (ExternalError ''evaluation failed'') \<and>
   yields (projr (get_streaming_function unevaluated_env MODEL_REGISTRY ''openrouter'' ''q'' []
     None)) = [''Hel'', ''lo'', ''__error__''] \<and>
   yields (projr (get_streaming_function
     (sample_env (sample_client (text_completion ''Hello'') whole_stream))
     MODEL_REGISTRY ''openrouter'' ''q'' [] None)) = [''Hel'', ''lo'']"
  by (simp add: unevaluated_env_def generate_answer_def get_streaming_function_def
      stream_gen_def stream_openrouter_def finish_stream_def yields_def
      registry_defs generate_openrouter_def
      sample_defs or_empty_def or_else_def Let_def)

text \<open>
  C7, amended. For a registered provider: on the OpenRouter path, when the adapter has
  returned an answer and the evaluation step raises, the batch call raises that
  exception and returns no answer; when the adapter's stream has ended normally and the
  evaluation step raises, the generator has yielded the adapter's chunks unchanged and
  yields one more chunk, \<open>__error__\<close>. The OpenAI and Hugging Face paths run no
  evaluation step: what they do does not depend on it.
\<close>

theorem evaluation_failure_surfaces_on_openrouter:
  assumes "registry (lower p) = Some config"
    and "prompt = build_research_prompt ev contexts query"
  shows "(lower p = ''openrouter'' \<and>
            generate_openrouter ev prompt config sel = (calls, Inr (a, m, f)) \<and>
            evaluate_metrics ev a prompt = Inl e \<longrightarrow>
            generate_answer ev registry query contexts p sel =
              (calls @ [EvalCall a prompt], Inl e)) \<and>
         (lower p = ''openrouter'' \<and>
            stream_openrouter ev prompt config sel = (calls', buffer, None) \<and>
            evaluate_metrics ev (concat buffer) prompt = Inl e' \<longrightarrow>
            get_streaming_function ev registry p query contexts sel =
              Inr (calls' @ [EvalCall (concat buffer) prompt], buffer @ [''__error__''], None)) \<and>
         (lower p = ''openai'' \<or> lower p = ''huggingface'' \<longrightarrow>
            generate_answer (ev\<lparr>evaluate_metrics := other\<rparr>) registry query contexts p sel =
              generate_answer ev registry query contexts p sel \<and>
            get_streaming_function (ev\<lparr>evaluate_metrics := other\<rparr>) registry p query contexts sel =
              get_streaming_function ev registry p query contexts sel)"
proof (intro conjI impI)
  assume h: "lower p = ''openrouter'' \<and>
            generate_openrouter ev prompt config sel = (calls, Inr (a, m, f)) \<and>
            evaluate_metrics ev a prompt = Inl e"
  then show "generate_answer ev registry query contexts p sel =
              (calls @ [EvalCall a prompt], Inl e)"
    using generate_answer_openrouter [of registry p config ev query contexts sel] assms
    by simp
next
  assume h: "lower p = ''openrouter'' \<and>
            stream_openrouter ev prompt config sel = (calls', buffer, None) \<and>
            evaluate_metrics ev (concat buffer) prompt = Inl e'"
  then show "get_streaming_function ev registry p query contexts sel =
              Inr (calls' @ [EvalCall (concat buffer) prompt], buffer @ [''__error__''], None)"
    using get_streaming_function_resolved [of registry p config ev query contexts sel] assms
    by (simp add: stream_gen_openrouter)
next
  assume h: "lower p = ''openai'' \<or> lower p = ''huggingface''"
  have a: "generate_openai (ev\<lparr>evaluate_metrics := other\<rparr>) = generate_openai ev"
    "generate_huggingface (ev\<lparr>evaluate_metrics := other\<rparr>) = generate_huggingface ev"
    by (simp_all add: generate_openai_def generate_huggingface_def fun_eq_iff)
  have b: "stream_openai (ev\<lparr>evaluate_metrics := other\<rparr>) = stream_openai ev"
    "stream_huggingface (ev\<lparr>evaluate_metrics := other\<rparr>) = stream_huggingface ev"
    by (simp_all add: stream_openai_def stream_huggingface_def fun_eq_iff)
  have c: "build_research_prompt (ev\<lparr>evaluate_metrics := other\<rparr>) = build_research_prompt ev"
    by simp
  show "generate_answer (ev\<lparr>evaluate_metrics := other\<rparr>) registry query contexts p sel =
              generate_answer ev registry query contexts p sel"
  proof (cases "lower p = ''openai''")
    case True
    show ?thesis
      unfolding generate_answer_openai [of registry p config, OF assms(1) True] a c ..
  next
    case False
    with h have l: "lower p = ''huggingface''" by simp
    show ?thesis
      unfolding generate_answer_huggingface [of registry p config, OF assms(1) l] a c ..
  qed
  show "get_streaming_function (ev\<lparr>evaluate_metrics := other\<rparr>) registry p query contexts sel =
              get_streaming_function ev registry p query contexts sel"
  proof (cases "lower p = ''openai''")
    case True
    show ?thesis
      unfolding get_streaming_function_resolved [of registry p config, OF assms(1)] True
        stream_gen_openai b c ..
  next
    case False
    with h have l: "lower p = ''huggingface''" by simp
    show ?thesis
      unfolding get_streaming_function_resolved [of registry p config, OF assms(1)] l
        stream_gen_huggingface b c ..
  qed
qed

theorem evaluation_failure_surfaces_on_openrouter_witness:
  "MODEL_REGISTRY (lower ''openrouter'') = Some (the (MODEL_REGISTRY ''openrouter'')) \<and>
   lower ''openrouter'' = ''openrouter'' \<and>
   snd (generate_openrouter unevaluated_env ''q'' (the (MODEL_REGISTRY ''openrouter'')) None) =
     Inr (''Hello'', None, Some ''stop'') \<and>
   evaluate_metrics unevaluated_env ''Hello'' ''q'' = Inl (ExternalError ''evaluation failed'') \<and>
   generate_answer unevaluated_env MODEL_REGISTRY ''q'' [] ''openrouter'' None =
     (fst (generate_openrouter unevaluated_env ''q'' (the (MODEL_REGISTRY ''openrouter'')) None)
        @ [EvalCall ''Hello'' ''q''],
      Inl (ExternalError ''evaluation failed''))"
proof -
  let ?cfg = "the (MODEL_REGISTRY ''openrouter'')"
  let ?calls = "fst (generate_openrouter unevaluated_env ''q'' ?cfg None)"
  have r: "MODEL_REGISTRY (lower ''openrouter'') = Some ?cfg"
    by (simp add: lower_names MODEL_REGISTRY_def)
  have p: "''q'' = build_research_prompt unevaluated_env [] ''q''"
    by (simp add: unevaluated_env_def sample_env_def)
  have sg: "snd (generate_openrouter unevaluated_env ''q'' ?cfg None) =
              Inr (''Hello'', None, Some ''stop'')"
    by (simp add: generate_openrouter_def unevaluated_env_def sample_defs or_empty_def
        or_else_def Let_def)
  have g: "generate_openrouter unevaluated_env ''q'' ?cfg None =
             (?calls, Inr (''Hello'', None, Some ''stop''))"
    using sg by (simp add: prod_eq_iff)
  have e: "evaluate_metrics unevaluated_env ''Hello'' ''q'' = Inl (ExternalError ''evaluation failed'')"
    by (simp add: unevaluated_env_def sample_defs)
  have l: "lower ''openrouter'' = ''openrouter''"
    by (rule lower_names)
  note t = evaluation_failure_surfaces_on_openrouter
    [where registry = MODEL_REGISTRY and p = "''openrouter''" and config = ?cfg
       and prompt = "''q''" and ev = unevaluated_env and contexts = "[]" and query = "''q''"
       and sel = None and calls = ?calls and a = "''Hello''" and m = None
       and f = "Some ''stop''" and e = "ExternalError ''evaluation failed''",
     OF r p, THEN conjunct1, THEN mp]
  have "generate_answer unevaluated_env MODEL_REGISTRY ''q'' [] ''openrouter'' None =
     (?calls @ [EvalCall ''Hello'' ''q''], Inl (ExternalError ''evaluation failed''))"
    by (rule t) (intro conjI l g e)
  with r l sg e show ?thesis by blast
qed

subsection \<open>Streams of a backend that returns a fixed answer\<close>

lemma is_marker_simps:
  "is_marker ''__truncated__''" "is_marker ''__error__''" "is_marker (''__model_used__:'' @ m)"
  by (simp_all add: is_marker_def)

lemma text_fragments_texts:
  "\<forall>x \<in> set xs. x \<noteq> [] \<and> \<not> is_marker x \<Longrightarrow>
     text_fragments (xs @ ys) = xs @ text_fragments ys"
  by (induction xs) (auto simp: is_marker_def)

lemma text_fragments_truncated: "text_fragments [''__truncated__''] = []"
  by simp

lemma text_fragments_model:
  "prefix ''__model_used__:'' x \<Longrightarrow> text_fragments (x # ys) = text_fragments ys"
  by auto

lemma concat_nonempty_single: "concat (filter (\<lambda>t. t \<noteq> []) [x]) = x"
  by simp

lemma content_of_choice:
  "chunk_choices c = ch # rest \<Longrightarrow>
     (if truthy (delta_content ch) then [the (delta_content ch)] else []) =
     filter (\<lambda>t. t \<noteq> []) [content_of c]"
  by (auto simp: content_of_def or_empty_def truthy_iff)

lemma contents_Cons:
  "contents (c # cs) = filter (\<lambda>t. t \<noteq> []) [content_of c] @ contents cs"
  by (simp add: contents_def)

lemma chunk_loop_all_choices:
  "\<forall>c \<in> set cs. chunk_choices c \<noteq> [] \<Longrightarrow>
     fst (chunk_loop cs l) = contents cs \<and> snd (snd (chunk_loop cs l)) = None"
proof (induction cs arbitrary: l)
  case Nil
  then show ?case by (simp add: contents_def)
next
  case (Cons c cs)
  then obtain ch rest where ch: "chunk_choices c = ch # rest"
    by (cases "chunk_choices c") auto
  let ?l = "if truthy (finish_reason ch) then finish_reason ch else l"
  from Cons have ih: "fst (chunk_loop cs ?l) = contents cs \<and> snd (snd (chunk_loop cs ?l)) = None"
    by simp
  obtain ys l' e where r: "chunk_loop cs ?l = (ys, l', e)"
    by (cases "chunk_loop cs ?l") auto
  from ih r have "ys = contents cs" "e = None" by simp_all
  then show ?case
    using ch r content_of_choice [OF ch] by (simp add: Let_def contents_Cons)
qed

lemma hf_loop_all_choices:
  "\<forall>c \<in> set cs. chunk_choices c \<noteq> [] \<Longrightarrow> hf_loop cs = (contents cs, None)"
proof (induction cs)
  case Nil
  then show ?case by (simp add: contents_def)
next
  case (Cons c cs)
  then obtain ch rest where ch: "chunk_choices c = ch # rest"
    by (cases "chunk_choices c") auto
  from Cons have ih: "hf_loop cs = (contents cs, None)" by simp
  show ?case
    using ch ih content_of_choice [OF ch] by (simp add: Let_def contents_Cons)
qed

lemma concat_contents: "concat (contents cs) = concat (map content_of cs)"
  by (induction cs) (auto simp: contents_def)

lemma contents_texts: "\<forall>c \<in> set cs. \<not> is_marker (content_of c) \<Longrightarrow>
    \<forall>x \<in> set (contents cs). x \<noteq> [] \<and> \<not> is_marker x"
  by (auto simp: contents_def)

lemma text_fragments_contents:
  "\<forall>c \<in> set cs. \<not> is_marker (content_of c) \<Longrightarrow>
     text_fragments (contents cs @ ys) = contents cs @ text_fragments ys"
  by (rule text_fragments_texts) (rule contents_texts)

lemma text_fragments_tail:
  "text_fragments (if b then [''__truncated__''] else []) = []"
  by simp

lemma finish_stream_normal:
  "snd (snd looped) = None \<Longrightarrow>
     finish_stream looped None =
       (fst looped @ (if fst (snd looped) = Some ''length'' then [''__truncated__''] else []),
        None)"
  by (cases looped) (auto simp: finish_stream_def)

lemma stream_openai_text:
  assumes "create_stream (openai_client ev)
             \<lparr>req_model = primary_model config, req_messages = build_messages prompt,
              req_temperature = temperature config,
              req_max_tokens = max_completion_tokens config,
              req_extra_body = None, req_stream = True\<rparr> = Inr (cs, None)"
    and "\<forall>c \<in> set cs. chunk_choices c \<noteq> [] \<and> \<not> is_marker (content_of c)"
  shows "raised (stream_openai ev prompt config) = None \<and>
         concat (text_fragments (yields (stream_openai ev prompt config))) =
           concat (map content_of cs)"
proof -
  from assms(2) have a: "\<forall>c \<in> set cs. chunk_choices c \<noteq> []"
    and m: "\<forall>c \<in> set cs. \<not> is_marker (content_of c)" by auto
  note l = chunk_loop_all_choices [OF a, of None]
  have f: "finish_stream (chunk_loop cs None) None =
       (contents cs @ (if fst (snd (chunk_loop cs None)) = Some ''length''
                       then [''__truncated__''] else []), None)"
    using finish_stream_normal [of "chunk_loop cs None"] l by simp
  show ?thesis
    unfolding stream_openai_def Let_def assms(1)
    by (simp add: f raised_def yields_def text_fragments_contents [OF m] text_fragments_tail
        concat_contents del: text_fragments.simps)
qed

lemma stream_huggingface_text:
  assumes "create_stream (hf_client ev)
             \<lparr>req_model = primary_model config, req_messages = build_messages prompt,
              req_temperature = temperature config,
              req_max_tokens = max_completion_tokens config,
              req_extra_body = None, req_stream = True\<rparr> = Inr (cs, None)"
    and "\<forall>c \<in> set cs. chunk_choices c \<noteq> [] \<and> \<not> is_marker (content_of c)"
  shows "raised (stream_huggingface ev prompt config) = None \<and>
         concat (text_fragments (yields (stream_huggingface ev prompt config))) =
           concat (map content_of cs)"
proof -
  from assms(2) have a: "\<forall>c \<in> set cs. chunk_choices c \<noteq> []"
    and m: "\<forall>c \<in> set cs. \<not> is_marker (content_of c)" by auto
  show ?thesis
    unfolding stream_huggingface_def Let_def assms(1)
    using text_fragments_contents [OF m, of "[]"]
    by (simp add: hf_loop_all_choices [OF a] raised_def yields_def concat_contents)
qed

lemma stream_openrouter_text:
  assumes "create_stream (openrouter_client ev)
             \<lparr>req_model = model_to_use sel config, req_messages = build_messages prompt,
              req_temperature = temperature config,
              req_max_tokens = max_completion_tokens config,
              req_extra_body = Some (build_openrouter_extra config),
              req_stream = True\<rparr> = Inr (cs, None)"
    and "\<forall>c \<in> set cs. chunk_choices c \<noteq> [] \<and> \<not> is_marker (content_of c)"
  shows "raised (stream_openrouter ev prompt config sel) = None \<and>
         concat (text_fragments (yields (stream_openrouter ev prompt config sel))) =
           concat (map content_of cs)"
proof (cases cs)
  case Nil
  then show ?thesis
    unfolding stream_openrouter_def Let_def assms(1)
    by (simp add: raised_def yields_def)
next
  case (Cons first_chunk rest)
  from assms(2) Cons have a: "\<forall>c \<in> set rest. chunk_choices c \<noteq> []"
    and m: "\<forall>c \<in> set cs. \<not> is_marker (content_of c)" by auto
  from assms(2) Cons obtain ch more where ch: "chunk_choices first_chunk = ch # more"
    by (cases "chunk_choices first_chunk") auto
  note l = chunk_loop_all_choices [OF a, of None]
  let ?tail = "if fst (snd (chunk_loop rest None)) = Some ''length''
               then [''__truncated__''] else []"
  let ?ys0 = "if truthy (chunk_model first_chunk)
              then [''__model_used__:'' @ the (chunk_model first_chunk)] else []"
  have f: "finish_stream (chunk_loop rest None) None = (contents rest @ ?tail, None)"
    using finish_stream_normal [of "chunk_loop rest None"] l by simp
  have c: "filter (\<lambda>t. t \<noteq> []) [content_of first_chunk] @ contents rest = contents cs"
    by (simp add: Cons contents_def)
  have g: "stream_openrouter ev prompt config sel =
             ([ChatCall OpenRouter
                 \<lparr>req_model = model_to_use sel config, req_messages = build_messages prompt,
                  req_temperature = temperature config,
                  req_max_tokens = max_completion_tokens config,
                  req_extra_body = Some (build_openrouter_extra config),
                  req_stream = True\<rparr>],
              ?ys0 @ contents cs @ ?tail, None)"
    unfolding stream_openrouter_def Let_def assms(1) Cons
    using content_of_choice [OF ch] c [unfolded Cons]
    by (simp add: ch f del: filter.simps)
  have "text_fragments (?ys0 @ contents cs @ ?tail) = text_fragments (contents cs @ ?tail)"
  proof (cases "truthy (chunk_model first_chunk)")
    case True
    let ?x = "''__model_used__:'' @ the (chunk_model first_chunk)"
    have "prefix ''__model_used__:'' ?x"
      by (rule prefixI [OF refl])
    then have "text_fragments (?x # contents cs @ ?tail) = text_fragments (contents cs @ ?tail)"
      by (rule text_fragments_model)
    moreover have "?ys0 @ contents cs @ ?tail = ?x # contents cs @ ?tail"
      using True by simp
    ultimately show ?thesis by (simp only:)
  next
    case False
    then have "?ys0 @ contents cs @ ?tail = contents cs @ ?tail" by simp
    then show ?thesis by (simp only:)
  qed
  also have "\<dots> = contents cs @ text_fragments ?tail"
    by (rule text_fragments_contents [OF m])
  also have "\<dots> = contents cs"
    by (simp only: text_fragments_tail append_Nil2)
  finally show ?thesis
    unfolding g by (simp add: raised_def yields_def concat_contents)
qed

lemma fixed_answer_createD:
  assumes "fixed_answer_client cl a"
  obtains resp c cs where "create cl request = Inr resp" "choices resp = c # cs"
    "or_empty (message_content c) = a"
  using assms unfolding fixed_answer_client_def by blast

lemma fixed_answer_streamD:
  assumes "fixed_answer_client cl a"
  obtains chunks where "create_stream cl request = Inr (chunks, None)"
    "\<forall>c \<in> set chunks. chunk_choices c \<noteq> [] \<and> \<not> is_marker (content_of c)"
    "concat (map content_of chunks) = a"
  using assms unfolding fixed_answer_client_def by blast

lemma generate_openai_fixed:
  assumes "fixed_answer_client (openai_client ev) a"
  shows "\<exists>calls. generate_openai ev prompt config = (calls, Inr (a, None))"
proof -
  let ?req = "\<lparr>req_model = ''gpt-4o-mini'', req_messages = build_messages prompt,
                 req_temperature = temperature config,
                 req_max_tokens = max_completion_tokens config,
                 req_extra_body = None, req_stream = False\<rparr>"
  obtain resp c cs where "create (openai_client ev) ?req = Inr resp" "choices resp = c # cs"
    "or_empty (message_content c) = a"
    using assms by (rule fixed_answer_createD)
  then show ?thesis by (simp add: generate_openai_def Let_def)
qed

lemma generate_huggingface_fixed:
  assumes "fixed_answer_client (hf_client ev) a"
  shows "\<exists>calls. generate_huggingface ev prompt config = (calls, Inr (a, None))"
proof -
  let ?req = "\<lparr>req_model = primary_model config, req_messages = build_messages prompt,
                 req_temperature = temperature config,
                 req_max_tokens = max_completion_tokens config,
                 req_extra_body = None, req_stream = False\<rparr>"
  obtain resp c cs where "create (hf_client ev) ?req = Inr resp" "choices resp = c # cs"
    "or_empty (message_content c) = a"
    using assms by (rule fixed_answer_createD)
  then show ?thesis by (simp add: generate_huggingface_def Let_def)
qed

lemma generate_openrouter_fixed:
  assumes "fixed_answer_client (openrouter_client ev) a"
  shows "\<exists>calls m f. generate_openrouter ev prompt config sel = (calls, Inr (a, m, f))"
proof -
  let ?req = "\<lparr>req_model = model_to_use sel config,
                 req_messages = build_messages prompt,
                 req_temperature = temperature config,
                 req_max_tokens = max_completion_tokens config,
                 req_extra_body = Some (build_openrouter_extra config),
                 req_stream = False\<rparr>"
  obtain resp c cs where "create (openrouter_client ev) ?req = Inr resp" "choices resp = c # cs"
    "or_empty (message_content c) = a"
    using assms by (rule fixed_answer_createD)
  then show ?thesis by (simp add: generate_openrouter_def Let_def)
qed

lemma stream_openai_fixed:
  assumes "fixed_answer_client (openai_client ev) a"
  shows "raised (stream_openai ev prompt config) = None \<and>
         concat (text_fragments (yields (stream_openai ev prompt config))) = a"
proof -
  let ?req = "\<lparr>req_model = primary_model config, req_messages = build_messages prompt,
              req_temperature = temperature config,
              req_max_tokens = max_completion_tokens config,
              req_extra_body = None, req_stream = True\<rparr>"
  obtain chunks where c: "create_stream (openai_client ev) ?req = Inr (chunks, None)"
    "\<forall>c \<in> set chunks. chunk_choices c \<noteq> [] \<and> \<not> is_marker (content_of c)"
    "concat (map content_of chunks) = a"
    using assms by (rule fixed_answer_streamD)
  show ?thesis using stream_openai_text [OF c(1) c(2)] c(3) by simp
qed

lemma stream_huggingface_fixed:
  assumes "fixed_answer_client (hf_client ev) a"
  shows "raised (stream_huggingface ev prompt config) = None \<and>
         concat (text_fragments (yields (stream_huggingface ev prompt config))) = a"
proof -
  let ?req = "\<lparr>req_model = primary_model config, req_messages = build_messages prompt,
              req_temperature = temperature config,
              req_max_tokens = max_completion_tokens config,
              req_extra_body = None, req_stream = True\<rparr>"
  obtain chunks where c: "create_stream (hf_client ev) ?req = Inr (chunks, None)"
    "\<forall>c \<in> set chunks. chunk_choices c \<noteq> [] \<and> \<not> is_marker (content_of c)"
    "concat (map content_of chunks) = a"
    using assms by (rule fixed_answer_streamD)
  show ?thesis using stream_huggingface_text [OF c(1) c(2)] c(3) by simp
qed

lemma stream_openrouter_fixed:
  assumes "fixed_answer_client (openrouter_client ev) a"
  shows "raised (stream_openrouter ev prompt config sel) = None \<and>
         concat (text_fragments (yields (stream_openrouter ev prompt config sel))) = a"
proof -
  let ?req = "\<lparr>req_model = model_to_use sel config, req_messages = build_messages prompt,
              req_temperature = temperature config,
              req_max_tokens = max_completion_tokens config,
              req_extra_body = Some (build_openrouter_extra config),
              req_stream = True\<rparr>"
  obtain chunks where c: "create_stream (openrouter_client ev) ?req = Inr (chunks, None)"
    "\<forall>c \<in> set chunks. chunk_choices c \<noteq> [] \<and> \<not> is_marker (content_of c)"
    "concat (map content_of chunks) = a"
    using assms by (rule fixed_answer_streamD)
  show ?thesis using stream_openrouter_text [OF c(1) c(2)] c(3) by simp
qed

lemma stream_gen_openrouter_fixed:
  assumes "fixed_answer_client (openrouter_client ev) a" and "evaluation_succeeds ev"
  shows "raised (stream_gen ev p ''openrouter'' prompt config sel) = None \<and>
         concat (text_fragments (yields (stream_gen ev p ''openrouter'' prompt config sel))) = a"
proof -
  obtain calls buffer r where g: "stream_openrouter ev prompt config sel = (calls, buffer, r)"
    by (cases "stream_openrouter ev prompt config sel") auto
  from stream_openrouter_fixed [OF assms(1), of prompt config sel] g
  have r: "r = None" and b: "concat (text_fragments buffer) = a"
    by (simp_all add: raised_def yields_def)
  from assms(2) obtain m where "evaluate_metrics ev (concat buffer) prompt = Inr m"
    unfolding evaluation_succeeds_def by blast
  then show ?thesis
    unfolding stream_gen_openrouter g r using b by (simp add: raised_def yields_def)
qed

text \<open>
  C5, as stated, fails, in two ways. With the provider \<open>openrouter\<close>, a backend whose
  answer is \<open>Hello\<close> in both modes and an evaluation step that raises, the batch call
  returns no answer but the evaluation's exception, while the text of the stream is
  \<open>Hello\<close>. With the provider \<open>huggingface\<close> and a backend whose answer is the text
  \<open>__truncated__\<close> in both modes, the batch answer is that text, while the consumer
  reads the streamed fragment as the truncation marker and the text of the stream is
  empty.
\<close>

theorem batch_and_streaming_differ_counterexample:
  "snd (generate_answer unevaluated_env MODEL_REGISTRY ''q'' [] ''openrouter'' None) =
     Inl (ExternalError ''evaluation failed'') \<and>
   map_sum id (concat \<circ> text_fragments \<circ> yields)
     (get_streaming_function unevaluated_env MODEL_REGISTRY ''openrouter'' ''q'' [] None) =
     Inr ''Hello'' \<and>
   map_sum id ans_answer
     (snd (generate_answer marker_text_env MODEL_REGISTRY ''q'' [] ''huggingface'' None)) =
     Inr ''__truncated__'' \<and>
   map_sum id (concat \<circ> text_fragments \<circ> yields)
     (get_streaming_function marker_text_env MODEL_REGISTRY ''huggingface'' ''q'' [] None) =
     Inr []"
  by (simp add: unevaluated_env_def marker_text_env_def generate_answer_def
      get_streaming_function_def stream_gen_def stream_openrouter_def stream_huggingface_def
      finish_stream_def yields_def registry_defs generate_openrouter_def
      generate_huggingface_def sample_defs or_empty_def or_else_def Let_def)

text \<open>
  C5, amended. For a registered provider whose backend returns the fixed answer \<open>a\<close>
  in both modes, where no streamed fragment starts with one of the three markers (see
  \<open>fixed_answer_client\<close>), and, on the OpenRouter path, where the evaluation step does
  not raise: the batch call returns an answer whose text is \<open>a\<close>, and the generator
  ends normally and the text fragments the consumer reads from its chunks join to \<open>a\<close>.
\<close>

theorem batch_and_streaming_agree:
  assumes "registry (lower provider) = Some config"
    and "backend_client ev (lower provider) = Some cl"
    and "fixed_answer_client cl a"
    and "lower provider = ''openrouter'' \<longrightarrow> evaluation_succeeds ev"
  shows "\<exists>calls r g.
           generate_answer ev registry query contexts provider sel = (calls, Inr r) \<and>
           ans_answer r = a \<and>
           get_streaming_function ev registry provider query contexts sel = Inr g \<and>
           raised g = None \<and>
           concat (text_fragments (yields g)) = a"
proof -
  let ?prompt = "build_research_prompt ev contexts query"
  note gs = get_streaming_function_resolved [of registry provider config ev query contexts sel,
      OF assms(1)]
  from assms(2) consider
      (openai) "lower provider = ''openai''" "cl = openai_client ev"
    | (openrouter) "lower provider = ''openrouter''" "cl = openrouter_client ev"
    | (huggingface) "lower provider = ''huggingface''" "cl = hf_client ev"
    by (auto simp: backend_client_def split: if_splits)
  then show ?thesis
  proof cases
    case openai
    with assms(3) have f: "fixed_answer_client (openai_client ev) a" by simp
    obtain calls where "generate_openai ev ?prompt config = (calls, Inr (a, None))"
      using generate_openai_fixed [OF f] by blast
    then have "\<exists>calls r. generate_answer ev registry query contexts provider sel = (calls, Inr r) \<and>
        ans_answer r = a"
      unfolding generate_answer_openai [of registry provider config, OF assms(1) openai(1)]
      by simp
    moreover have "raised (stream_gen ev provider (lower provider) ?prompt config sel) = None \<and>
        concat (text_fragments (yields (stream_gen ev provider (lower provider) ?prompt config sel))) = a"
      unfolding openai(1) stream_gen_openai by (rule stream_openai_fixed [OF f])
    ultimately show ?thesis unfolding gs by blast
  next
    case openrouter
    with assms(3) have f: "fixed_answer_client (openrouter_client ev) a" by simp
    from assms(4) openrouter(1) have es: "evaluation_succeeds ev" by simp
    obtain calls m fin where g: "generate_openrouter ev ?prompt config sel = (calls, Inr (a, m, fin))"
      using generate_openrouter_fixed [OF f] by blast
    from es obtain mr where "evaluate_metrics ev a ?prompt = Inr mr"
      unfolding evaluation_succeeds_def by blast
    with g have "\<exists>calls r. generate_answer ev registry query contexts provider sel = (calls, Inr r) \<and>
        ans_answer r = a"
      unfolding generate_answer_openrouter [of registry provider config, OF assms(1) openrouter(1)]
      by simp
    moreover have "raised (stream_gen ev provider (lower provider) ?prompt config sel) = None \<and>
        concat (text_fragments (yields (stream_gen ev provider (lower provider) ?prompt config sel))) = a"
      unfolding openrouter(1) by (rule stream_gen_openrouter_fixed [OF f es])
    ultimately show ?thesis unfolding gs by blast
  next
    case huggingface
    with assms(3) have f: "fixed_answer_client (hf_client ev) a" by simp
    obtain calls where "generate_huggingface ev ?prompt config = (calls, Inr (a, None))"
      using generate_huggingface_fixed [OF f] by blast
    then have "\<exists>calls r. generate_answer ev registry query contexts provider sel = (calls, Inr r) \<and>
        ans_answer r = a"
      unfolding generate_answer_huggingface [of registry provider config, OF assms(1) huggingface(1)]
      by simp
    moreover have "raised (stream_gen ev provider (lower provider) ?prompt config sel) = None \<and>
        concat (text_fragments (yields (stream_gen ev provider (lower provider) ?prompt config sel))) = a"
      unfolding huggingface(1) stream_gen_huggingface by (rule stream_huggingface_fixed [OF f])
    ultimately show ?thesis unfolding gs by blast
  qed
qed

lemma sample_client_fixed:
  "fixed_answer_client (sample_client (text_completion ''Hello'') whole_stream) ''Hello''"
  by (simp add: fixed_answer_client_def sample_defs or_empty_def content_of_def is_marker_def)

lemma sample_env_evaluates: "evaluation_succeeds (sample_env cl)"
  by (simp add: evaluation_succeeds_def sample_env_def)

theorem batch_and_streaming_agree_witness:
  "MODEL_REGISTRY (lower ''OpenRouter'') = Some (the (MODEL_REGISTRY ''openrouter'')) \<and>
   backend_client (sample_env (sample_client (text_completion ''Hello'') whole_stream))
     (lower ''OpenRouter'') = Some (sample_client (text_completion ''Hello'') whole_stream) \<and>
   fixed_answer_client (sample_client (text_completion ''Hello'') whole_stream) ''Hello'' \<and>
   evaluation_succeeds (sample_env (sample_client (text_completion ''Hello'') whole_stream)) \<and>
   (\<exists>calls r g.
      generate_answer (sample_env (sample_client (text_completion ''Hello'') whole_stream))
        MODEL_REGISTRY ''q'' [] ''OpenRouter'' None = (calls, Inr r) \<and>
      ans_answer r = ''Hello'' \<and>
      get_streaming_function (sample_env (sample_client (text_completion ''Hello'') whole_stream))
        MODEL_REGISTRY ''OpenRouter'' ''q'' [] None = Inr g \<and>
      raised g = None \<and>
      concat (text_fragments (yields g)) = ''Hello'')"
proof -
  let ?ev = "sample_env (sample_client (text_completion ''Hello'') whole_stream)"
  have r: "MODEL_REGISTRY (lower ''OpenRouter'') = Some (the (MODEL_REGISTRY ''openrouter''))"
    by (simp add: lower_names MODEL_REGISTRY_def)
  have b: "backend_client ?ev (lower ''OpenRouter'') =
             Some (sample_client (text_completion ''Hello'') whole_stream)"
    by (simp add: lower_names backend_client_def sample_env_def)
  have e: "evaluation_succeeds ?ev"
    by (rule sample_env_evaluates)
  from batch_and_streaming_agree
    [where registry = MODEL_REGISTRY and provider = "''OpenRouter''" and ev = ?ev
       and query = "''q''" and contexts = "[]" and sel = None,
     OF r b sample_client_fixed impI [OF e]]
  show ?thesis using r b sample_client_fixed e by blast
qed

end
